theory Spec2Isabelle
  imports Main
begin

section \<open>JavaScript values\<close>

text \<open>
  The server handles provider responses as untyped JavaScript values obtained from
  parsed JSON.  Numbers are modelled as integers: the code only ever tests them for
  truthiness, and NaN cannot come out of a JSON document.  An object is the list of
  its own properties, looked up from the front.  A string is held as the bytes of its
  UTF-8 encoding (a lone surrogate as its three-byte form).
\<close>

datatype json =
    JUndefined
  | JNull
  | JBool bool
  | JNum int
  | JStr string
  | JArr "json list"
  | JObj "(string \<times> json) list"

text \<open>Truthiness, as tested by \<^verbatim>\<open>if (x)\<close>, \<^verbatim>\<open>!x\<close>, \<^verbatim>\<open>x ? a : b\<close> and \<^verbatim>\<open>x || y\<close>.\<close>

fun truthy :: "json \<Rightarrow> bool" where
  "truthy JUndefined = False"
| "truthy JNull = False"
| "truthy (JBool b) = b"
| "truthy (JNum n) = (n \<noteq> 0)"
| "truthy (JStr s) = (s \<noteq> [])"
| "truthy (JArr xs) = True"
| "truthy (JObj kvs) = True"

text \<open>\<^verbatim>\<open>a || b\<close>: the left operand when it is truthy, the right one otherwise.\<close>

definition js_or :: "json \<Rightarrow> json \<Rightarrow> json" where
  "js_or a b = (if truthy a then a else b)"

text \<open>
  \<^verbatim>\<open>x?.name\<close>: undefined on null and undefined, the own property of an object, and
  undefined on every other value (none of the property names the code reads is a
  built-in property of strings, numbers, booleans or arrays).
\<close>

fun opt_prop :: "json \<Rightarrow> string \<Rightarrow> json" where
  "opt_prop (JObj kvs) name = (case map_of kvs name of Some v \<Rightarrow> v | None \<Rightarrow> JUndefined)"
| "opt_prop v name = JUndefined"

text \<open>
  The first UTF-16 code unit of a string, in UTF-8: the first character when it lies in
  the basic plane, the high surrogate of the first character otherwise.
\<close>

definition high_surrogate :: "string \<Rightarrow> string" where
  "high_surrogate s =
     (case map of_char s of
        [a, b, c, d] \<Rightarrow>
          (let cp = (a mod 8) * 262144 + (b mod 64) * 4096 + (c mod 64) * 64 + d mod (64::nat);
               hi = 55296 + (cp - 65536) div 1024
           in [CHR 0xED, char_of (128 + (hi div 64) mod 64), char_of (128 + hi mod 64)])
      | _ \<Rightarrow> s)"

definition first_code_unit :: "string \<Rightarrow> string" where
  "first_code_unit s =
     (case s of
        [] \<Rightarrow> []
      | b # rest \<Rightarrow>
          if of_char b < (0x80::nat) then [b]
          else if of_char b < (0xE0::nat) then take 2 s
          else if of_char b < (0xF0::nat) then take 3 s
          else high_surrogate (take 4 s))"

text \<open>\<^verbatim>\<open>x?.[0]\<close>: the first element of an array, the first code unit of a string.\<close>

fun opt_index0 :: "json \<Rightarrow> json" where
  "opt_index0 (JArr xs) = (case xs of [] \<Rightarrow> JUndefined | x # rest \<Rightarrow> x)"
| "opt_index0 (JStr s) = (case first_code_unit s of [] \<Rightarrow> JUndefined | c # rest \<Rightarrow> JStr (c # rest))"
| "opt_index0 (JObj kvs) = (case map_of kvs ''0'' of Some v \<Rightarrow> v | None \<Rightarrow> JUndefined)"
| "opt_index0 v = JUndefined"

text \<open>Exceptions carry their message.\<close>

datatype error = Error string | TypeError string | RequestError string

fun message :: "error \<Rightarrow> string" where
  "message (Error m) = m"
| "message (TypeError m) = m"
| "message (RequestError m) = m"

type_synonym 'a result = "error + 'a"

text \<open>\<^verbatim>\<open>x.name\<close> without optional chaining throws a TypeError on null and undefined.\<close>

fun get_prop :: "json \<Rightarrow> string \<Rightarrow> json result" where
  "get_prop JUndefined name =
     Inl (TypeError (''Cannot read properties of undefined (reading '' @ [CHR 0x27] @ name @ [CHR 0x27] @ '')''))"
| "get_prop JNull name =
     Inl (TypeError (''Cannot read properties of null (reading '' @ [CHR 0x27] @ name @ [CHR 0x27] @ '')''))"
| "get_prop v name = Inr (opt_prop v name)"

text \<open>A template literal prints a missing form field as the text \<^verbatim>\<open>undefined\<close>.\<close>

fun template :: "string option \<Rightarrow> string" where
  "template None = ''undefined''"
| "template (Some s) = s"

section \<open>The provider and the clock\<close>

text \<open>
  Every upstream request is answered by the provider with the time it took in
  milliseconds and either a thrown error (a non-2xx response or a transport error) or
  the parsed response body.  The image status query is asked up to five times in one
  request; its answer may differ at each attempt.  A timer set for \<open>d\<close> milliseconds
  fires after \<open>d\<close> milliseconds plus a slack that the run time decides.
\<close>

record provider =
  post :: "string \<Rightarrow> json \<Rightarrow> nat \<times> json result"
  query_image :: "json \<Rightarrow> nat \<Rightarrow> nat \<times> json result"
  query_video :: "string \<Rightarrow> nat \<times> json result"
  timer_slack :: "nat \<Rightarrow> nat"

datatype event =
    Post string json
  | GetImageStatus json
  | GetVideoStatus string
  | Timeout nat

type_synonym trace = "(nat \<times> event) list"

section \<open>Server: helpers\<close>

definition minimaxRequest :: "provider \<Rightarrow> string \<Rightarrow> json \<Rightarrow> nat \<Rightarrow> json result \<times> nat \<times> trace" where
  "minimaxRequest P endpoint data now =
     (case post P endpoint data of
        (ms, response) \<Rightarrow> (response, now + ms, [(now, Post endpoint data)]))"

definition default_lyrics_lines :: "string list" where
  "default_lyrics_lines =
    [''[Intro]'',
     ''(Oh~)'',
     ''This is our story now'',
     ''Let's begin tonight'',
     '''',
     ''[Verse 1]'',
     ''In the darkness we stand together'',
     ''Forever bound by destiny'',
     ''The stars guide our way tonight'',
     ''As we chase our dreams'',
     '''',
     ''[Pre-Chorus]'',
     ''Feel the fire in our hearts'',
     ''Nothing can tear us apart'',
     '''',
     ''[Chorus]'',
     ''We are unstoppable'',
     ''Together we shine so bright'',
     ''With the power of our souls'',
     ''We'll keep fighting through the night'',
     '''',
     ''[Verse 2]'',
     ''Memories fade but we'll remember'',
     ''Every moment that we've shared'',
     ''The journey continues on'',
     ''With hope we will persevere'',
     '''',
     ''[Bridge]'',
     ''(One more time)'',
     ''We rise again'',
     ''(One more time)'',
     ''Until the end'',
     '''',
     ''[Chorus]'',
     ''We are unstoppable'',
     ''Together we shine so bright'',
     ''With the power of our souls'',
     ''We'll keep fighting through the night'',
     '''',
     ''[Outro]'',
     ''(This is our story...)'',
     ''Our story begins now...'']"

fun join_lines :: "string list \<Rightarrow> string" where
  "join_lines [] = []"
| "join_lines [l] = l"
| "join_lines (l # ls) = l @ CHR 0x0A # join_lines ls"

text \<open>The fallback text is one template literal; its argument is not used.\<close>

definition getDefaultLyrics :: "string option \<Rightarrow> json" where
  "getDefaultLyrics theme = JStr (join_lines default_lyrics_lines)"

text \<open>
  \<^verbatim>\<open>generateLyrics\<close>: the request and the read of \<^verbatim>\<open>response.lyrics\<close> are inside
  the \<^verbatim>\<open>try\<close>; the handler of the \<^verbatim>\<open>catch\<close> returns the fallback text.
\<close>

definition generateLyrics :: "provider \<Rightarrow> string option \<Rightarrow> nat \<Rightarrow> json result \<times> nat \<times> trace" where
  "generateLyrics P theme now =
     (case minimaxRequest P ''/lyrics_generation''
             (JObj [(''mode'', JStr ''write_full_song''),
                    (''prompt'', JStr (''Anime opening song about: '' @ template theme @
                       ''. Write a dramatic, emotional J-pop style song with verse, chorus, bridge structure.''))])
             now of
        (Inl error, t, tr) \<Rightarrow> (Inr (getDefaultLyrics theme), t, tr)
      | (Inr response, t, tr) \<Rightarrow>
          (case get_prop response ''lyrics'' of
             Inl error \<Rightarrow> (Inr (getDefaultLyrics theme), t, tr)
           | Inr l \<Rightarrow> (Inr (js_or l (getDefaultLyrics theme)), t, tr)))"

definition generateMusic :: "provider \<Rightarrow> string option \<Rightarrow> json \<Rightarrow> nat \<Rightarrow> json result \<times> nat \<times> trace" where
  "generateMusic P theme lyrics now =
     minimaxRequest P ''/music_generation''
       (JObj [(''model'', JStr ''music-2.5''),
              (''prompt'', JStr (''Anime J-Pop opening, '' @ template theme @
                 '', emotional, dramatic, high energy, catchy melody, with drums, bass, guitar, synth'')),
              (''lyrics'', lyrics),
              (''audio_setting'', JObj [(''sample_rate'', JNum 44100), (''bitrate'', JNum 256000),
                                       (''format'', JStr ''mp3'')]),
              (''output_format'', JStr ''url'')])
       now"

definition generateVideo :: "provider \<Rightarrow> json \<Rightarrow> string option \<Rightarrow> nat \<Rightarrow> json result \<times> nat \<times> trace" where
  "generateVideo P imageUrl theme now =
     minimaxRequest P ''/video_generation''
       (JObj [(''model'', JStr ''MiniMax-Hailuo-2.3''),
              (''prompt'', JStr (''Anime style video, '' @ template theme @
                 '', dynamic camera movement, dramatic lighting, anime aesthetic, smooth motion, cinematic'')),
              (''image_url'', imageUrl),
              (''duration'', JNum 6),
              (''resolution'', JStr ''720P'')])
       now"

definition queryVideoStatus :: "provider \<Rightarrow> string \<Rightarrow> nat \<Rightarrow> json result \<times> nat \<times> trace" where
  "queryVideoStatus P taskId now =
     (case query_video P taskId of
        (ms, response) \<Rightarrow> (response, now + ms, [(now, GetVideoStatus taskId)]))"

text \<open>The merge is a stub: it returns the video URL it was given.\<close>

definition mergeVideoAndAudio :: "json \<Rightarrow> json \<Rightarrow> json" where
  "mergeVideoAndAudio videoUrl audioUrl = videoUrl"

definition generateImage :: "provider \<Rightarrow> string \<Rightarrow> nat \<Rightarrow> json result \<times> nat \<times> trace" where
  "generateImage P prompt now =
     minimaxRequest P ''/image_generation''
       (JObj [(''model'', JStr ''image-01''),
              (''prompt'', JStr prompt),
              (''num_images'', JNum 1),
              (''image_setting'', JObj [(''resolution'', JStr ''1024x1024'')])])
       now"

text \<open>The \<open>i\<close>-th status query of the polling loop.\<close>

definition queryImageStatus :: "provider \<Rightarrow> json \<Rightarrow> nat \<Rightarrow> nat \<Rightarrow> json result \<times> nat \<times> trace" where
  "queryImageStatus P taskId i now =
     (case query_image P taskId i of
        (ms, response) \<Rightarrow> (response, now + ms, [(now, GetImageStatus taskId)]))"

text \<open>\<^verbatim>\<open>await new Promise(resolve => setTimeout(resolve, d))\<close>, for the \<open>i\<close>-th timer.\<close>

definition sleep :: "provider \<Rightarrow> nat \<Rightarrow> nat \<Rightarrow> nat \<Rightarrow> nat \<times> trace" where
  "sleep P i d now = (now + d + timer_slack P i, [(now, Timeout d)])"

section \<open>Server: POST /api/generate\<close>

text \<open>
  The polling loop \<^verbatim>\<open>for (let i = 0; i < 5; i++)\<close> of step 1.  It returns the value of
  \<^verbatim>\<open>imageUrl\<close> when the loop is left (null when no query reported success), the clock
  and the requests made.  An error thrown by a status query is caught inside the loop.
\<close>

function image_poll_loop :: "provider \<Rightarrow> json \<Rightarrow> nat \<Rightarrow> nat \<Rightarrow> json \<times> nat \<times> trace" where
  "image_poll_loop P imageTaskId i now =
     (if i < 5 then
        (case sleep P i 2000 now of
           (woke, tr_sleep) \<Rightarrow>
             (case queryImageStatus P imageTaskId i woke of
                (Inr statusResult, t, tr_query) \<Rightarrow>
                  if opt_prop statusResult ''status'' = JStr ''success'' then
                    (js_or (opt_prop (opt_prop statusResult ''image'') ''image_url'')
                           (opt_index0 (opt_prop (opt_prop statusResult ''data'') ''image_urls'')),
                     t, tr_sleep @ tr_query)
                  else
                    (case image_poll_loop P imageTaskId (Suc i) t of
                       (url, t', tr) \<Rightarrow> (url, t', tr_sleep @ tr_query @ tr))
              | (Inl e, t, tr_query) \<Rightarrow>
                  (case image_poll_loop P imageTaskId (Suc i) t of
                     (url, t', tr) \<Rightarrow> (url, t', tr_sleep @ tr_query @ tr))))
      else (JNull, now, []))"
  by pat_completeness auto
termination
  by (relation "measure (\<lambda>(P, imageTaskId, i, now). 5 - i)") auto

declare image_poll_loop.simps [simp del]

text \<open>
  Step 1 of the handler: the image is generated from the theme, polled for when the
  provider answered with a task id, and taken from the first answer otherwise.
\<close>

definition image_prompt :: "string option \<Rightarrow> string" where
  "image_prompt theme = template theme @ '', anime style, beautiful vibrant colors, high quality''"

definition resolve_image :: "provider \<Rightarrow> string option \<Rightarrow> nat \<Rightarrow> json result \<times> nat \<times> trace" where
  "resolve_image P theme now =
     (case generateImage P (image_prompt theme) now of
        (Inl e, t, tr) \<Rightarrow> (Inl e, t, tr)
      | (Inr imageResult, t, tr) \<Rightarrow>
          (let imageTaskId = js_or (opt_prop imageResult ''id'') (opt_prop imageResult ''task_id'') in
           case (if truthy imageTaskId then image_poll_loop P imageTaskId 0 t else (JNull, t, [])) of
             (imageUrl, t', tr') \<Rightarrow>
               (Inr (if \<not> truthy imageUrl then
                       js_or (opt_index0 (opt_prop (opt_prop imageResult ''data'') ''image_urls''))
                             (opt_prop (opt_prop imageResult ''image'') ''image_url'')
                     else imageUrl),
                t', tr @ tr')))"

text \<open>The task registry: a \<^verbatim>\<open>Map\<close>, in insertion order.\<close>

datatype task_status = Processing | Success | Failed

text \<open>A stored task; \<^verbatim>\<open>videoUrl\<close> is undefined until a poll sets it.\<close>

record task =
  theme :: "string option"
  imageUrl :: json
  musicUrl :: json
  lyrics :: json
  status :: task_status
  createdAt :: nat
  videoUrl :: json

type_synonym registry = "(json \<times> task) list"

text \<open>
  Keys are compared as \<^verbatim>\<open>Map\<close> does: primitive values by value, objects and arrays by
  identity.  An object key always comes freshly parsed out of a provider response, so it
  equals no key already stored, and no string looked up later.
\<close>

fun is_primitive :: "json \<Rightarrow> bool" where
  "is_primitive (JArr xs) = False"
| "is_primitive (JObj kvs) = False"
| "is_primitive v = True"

fun tasks_set :: "registry \<Rightarrow> json \<Rightarrow> task \<Rightarrow> registry" where
  "tasks_set [] k v = [(k, v)]"
| "tasks_set ((k', v') # rest) k v =
     (if is_primitive k \<and> k' = k then (k, v) # rest else (k', v') # tasks_set rest k v)"

definition tasks_get :: "registry \<Rightarrow> string \<Rightarrow> task option" where
  "tasks_get tasks taskId = map_of tasks (JStr taskId)"

record http_response =
  code :: nat
  body :: json

text \<open>\<^verbatim>\<open>res.json(obj)\<close> answers 200 and leaves out the properties that are undefined.\<close>

definition res_json :: "(string \<times> json) list \<Rightarrow> http_response" where
  "res_json obj = \<lparr>code = 200, body = JObj (filter (\<lambda>(k, v). v \<noteq> JUndefined) obj)\<rparr>"

definition res_status_json :: "nat \<Rightarrow> (string \<times> json) list \<Rightarrow> http_response" where
  "res_status_json c obj = \<lparr>code = c, body = JObj (filter (\<lambda>(k, v). v \<noteq> JUndefined) obj)\<rparr>"

text \<open>\<^verbatim>\<open>error.message || fallback\<close>.\<close>

definition message_or :: "error \<Rightarrow> string \<Rightarrow> string" where
  "message_or e fallback = (if message e = [] then fallback else message e)"

text \<open>
  The handler.  The uploaded file is only logged, so the request is represented by its
  \<^verbatim>\<open>theme\<close> field (absent when the form has none).  A missing API key answers 500
  before any request is made; an error thrown by step 1, 3 or 4 is caught by the
  handler's \<^verbatim>\<open>catch\<close> and answers 500; the registry is written only on the way to
  the 200 answer.  \<^verbatim>\<open>Date.now()\<close> is the clock after the last request.
\<close>

definition generate ::
  "string \<Rightarrow> provider \<Rightarrow> nat \<Rightarrow> registry \<Rightarrow> string option \<Rightarrow> http_response \<times> registry \<times> trace" where
  "generate MINIMAX_API_KEY P now tasks req_theme =
     (if MINIMAX_API_KEY = [] then
        (res_status_json 500
           [(''error'', JStr ''MiniMax API key not configured. Please set MINIMAX_API_KEY environment variable.'')],
         tasks, [])
      else
        case resolve_image P req_theme now of
          (Inl e, t1, tr1) \<Rightarrow>
            (res_status_json 500 [(''error'', JStr (message_or e ''Failed to generate anime opening''))],
             tasks, tr1)
        | (Inr image_url, t1, tr1) \<Rightarrow>
           (case generateLyrics P req_theme t1 of
              (Inl e, t2, tr2) \<Rightarrow>
                (res_status_json 500 [(''error'', JStr (message_or e ''Failed to generate anime opening''))],
                 tasks, tr1 @ tr2)
            | (Inr lyrics_text, t2, tr2) \<Rightarrow>
               (case generateMusic P req_theme lyrics_text t2 of
                  (Inl e, t3, tr3) \<Rightarrow>
                    (res_status_json 500 [(''error'', JStr (message_or e ''Failed to generate anime opening''))],
                     tasks, tr1 @ tr2 @ tr3)
                | (Inr musicResult, t3, tr3) \<Rightarrow>
                   (let music_url =
                          js_or (js_or (js_or (js_or (js_or
                            (opt_prop (opt_prop musicResult ''data'') ''audio'')
                            (opt_prop musicResult ''audio_file''))
                            (opt_prop (opt_prop musicResult ''audio'') ''file_url''))
                            (opt_prop musicResult ''file_url''))
                            (opt_prop musicResult ''url''))
                            musicResult
                    in
                    case (if truthy image_url then
                            (case generateVideo P image_url req_theme t3 of
                               (Inl e, t4, tr4) \<Rightarrow> (Inl e, t4, tr4)
                             | (Inr videoResult, t4, tr4) \<Rightarrow>
                                 (Inr (js_or (js_or (opt_prop videoResult ''task_id'')
                                                    (opt_prop (opt_prop videoResult ''task'') ''task_id''))
                                             videoResult),
                                  t4, tr4))
                          else (Inr JNull, t3, [])) of
                      (Inl e, t4, tr4) \<Rightarrow>
                        (res_status_json 500 [(''error'', JStr (message_or e ''Failed to generate anime opening''))],
                         tasks, tr1 @ tr2 @ tr3 @ tr4)
                    | (Inr taskId, t4, tr4) \<Rightarrow>
                        (res_json [(''status'', JStr (if truthy taskId then ''processing'' else ''completed'')),
                                   (''taskId'', taskId),
                                   (''musicUrl'', music_url),
                                   (''imageUrl'', image_url),
                                   (''lyrics'', lyrics_text)],
                         (if truthy taskId then
                            tasks_set tasks taskId
                              \<lparr>theme = req_theme, imageUrl = image_url, musicUrl = music_url,
                               lyrics = lyrics_text, status = Processing, createdAt = t4,
                               videoUrl = JUndefined\<rparr>
                          else tasks),
                         tr1 @ tr2 @ tr3 @ tr4)))))"

section \<open>Server: GET /api/status/:taskId\<close>

text \<open>
  The task id is the path parameter, a string.  The task object is the one stored in the
  registry, so assigning to its fields and storing it again is one update of the entry.
\<close>

definition status_handler ::
  "provider \<Rightarrow> nat \<Rightarrow> registry \<Rightarrow> string \<Rightarrow> http_response \<times> registry \<times> trace" where
  "status_handler P now tasks taskId =
     (case tasks_get tasks taskId of
        None \<Rightarrow> (res_status_json 404 [(''error'', JStr ''Task not found'')], tasks, [])
      | Some task \<Rightarrow>
          (case queryVideoStatus P taskId now of
             (Inl e, t, tr) \<Rightarrow>
               (res_status_json 500 [(''error'', JStr (message_or e ''Failed to query status''))], tasks, tr)
           | (Inr statusResult, t, tr) \<Rightarrow>
               (case get_prop statusResult ''status'' of
                  Inl e \<Rightarrow>
                    (res_status_json 500 [(''error'', JStr (message_or e ''Failed to query status''))], tasks, tr)
                | Inr st \<Rightarrow>
                    if st = JStr ''success'' then
                      (let video_url = opt_prop (opt_prop statusResult ''video'') ''video_url'';
                           finalVideoUrl = mergeVideoAndAudio video_url (musicUrl task)
                       in (res_json [(''status'', JStr ''success''), (''videoUrl'', finalVideoUrl)],
                           tasks_set tasks (JStr taskId) (task\<lparr>status := Success, videoUrl := finalVideoUrl\<rparr>),
                           tr))
                    else if st = JStr ''failed'' then
                      (res_json [(''status'', JStr ''failed''), (''error'', JStr ''Video generation failed'')],
                       tasks_set tasks (JStr taskId) (task\<lparr>status := Failed\<rparr>),
                       tr)
                    else
                      (res_json [(''status'', JStr ''processing'')], tasks, tr))))"

text \<open>A sequence of polls: each poll names a task id and meets the provider as it is then.\<close>

fun run_polls :: "registry \<Rightarrow> (provider \<times> nat \<times> string) list \<Rightarrow> registry" where
  "run_polls tasks [] = tasks"
| "run_polls tasks ((P, now, taskId) # rest) =
     run_polls (fst (snd (status_handler P now tasks taskId))) rest"

section \<open>Client: the progress presenter\<close>

datatype step_status = StepPending | StepProcessing | StepCompleted | StepError

record GenerationStep =
  step_id :: nat
  label :: string
  step_status :: step_status

text \<open>The state of the component.  A selected file is represented by its size.\<close>

record app_state =
  image :: "nat option"
  theme_text :: string
  isGenerating :: bool
  progress :: "GenerationStep list"
  result :: "(json \<times> json) option"
  error_text :: "string option"

definition initial_progress :: "GenerationStep list" where
  "initial_progress =
     [\<lparr>step_id = 1, label = ''Uploading Image'', step_status = StepPending\<rparr>,
      \<lparr>step_id = 2, label = ''Generating Music'', step_status = StepPending\<rparr>,
      \<lparr>step_id = 3, label = ''Creating Video'', step_status = StepPending\<rparr>,
      \<lparr>step_id = 4, label = ''Merging & Finalizing'', step_status = StepPending\<rparr>]"

text \<open>
  \<^verbatim>\<open>updateStep\<close> queues the functional update \<^verbatim>\<open>prev => prev.map(...)\<close>, which React
  applies to the current state, not to the value a closure has captured.
\<close>

definition updateStep :: "nat \<Rightarrow> step_status \<Rightarrow> app_state \<Rightarrow> app_state" where
  "updateStep stepId st s =
     s\<lparr>progress := map (\<lambda>step. if step_id step = stepId then step\<lparr>step_status := st\<rparr> else step)
                        (progress s)\<rparr>"

text \<open>\<^verbatim>\<open>fetch\<close> rejects or yields a response; \<^verbatim>\<open>response.json()\<close> rejects or yields a value.\<close>

record fetch_response =
  ok :: bool
  json_data :: "json result"

type_synonym fetch_reply = "fetch_response result"

text \<open>
  \<^verbatim>\<open>String(v)\<close>, as the \<^verbatim>\<open>Error\<close> constructor and a template literal apply it.
  An integer up to \<open>2\<^sup>5\<^sup>3\<close> prints as its decimal digits; how a larger number prints is
  decided by its floating-point value and is the parameter \<open>number_text\<close>.  An array
  prints its elements joined by commas, null and undefined as nothing.  An object prints
  as \<^verbatim>\<open>[object Object]\<close>, unless it has a property \<^verbatim>\<open>toString\<close> of its own: a parsed
  value is not callable, and the conversion throws a TypeError.
\<close>

fun digit_char :: "nat \<Rightarrow> char" where
  "digit_char n = char_of (48 + n)"

fun decimal :: "nat \<Rightarrow> string" where
  "decimal n = (if n < 10 then [digit_char n] else decimal (n div 10) @ [digit_char (n mod 10)])"

declare decimal.simps [simp del]

fun join_commas :: "string list \<Rightarrow> string" where
  "join_commas [] = []"
| "join_commas [l] = l"
| "join_commas (l # ls) = l @ CHR '','' # join_commas ls"

fun first_error :: "'a result list \<Rightarrow> 'a list result" where
  "first_error [] = Inr []"
| "first_error (Inl e # rs) = Inl e"
| "first_error (Inr x # rs) = (case first_error rs of Inl e \<Rightarrow> Inl e | Inr xs \<Rightarrow> Inr (x # xs))"

fun js_String :: "(int \<Rightarrow> string) \<Rightarrow> json \<Rightarrow> string result" where
  "js_String number_text JUndefined = Inr ''undefined''"
| "js_String number_text JNull = Inr ''null''"
| "js_String number_text (JBool b) = Inr (if b then ''true'' else ''false'')"
| "js_String number_text (JNum n) =
     Inr (if 9007199254740992 < \<bar>n\<bar> then number_text n
          else if n < 0 then CHR ''-'' # decimal (nat (- n)) else decimal (nat n))"
| "js_String number_text (JStr s) = Inr s"
| "js_String number_text (JArr xs) =
     (case first_error
             (map (\<lambda>x. if x = JNull \<or> x = JUndefined then Inr [] else js_String number_text x) xs) of
        Inl e \<Rightarrow> Inl e
      | Inr parts \<Rightarrow> Inr (join_commas parts))"
| "js_String number_text (JObj kvs) =
     (if map_of kvs ''toString'' \<noteq> None then Inl (TypeError ''Cannot convert object to primitive value'')
      else Inr ''[object Object]'')"

text \<open>
  \<^verbatim>\<open>theme.trim()\<close> strips white space and line terminators from both ends: U+0009 to
  U+000D, U+0020, U+00A0, U+1680, U+2000 to U+200A, U+2028, U+2029, U+202F, U+205F,
  U+3000 and U+FEFF, here in UTF-8.
\<close>

definition white_space :: "string list" where
  "white_space =
     [[CHR 0x09], [CHR 0x0A], [CHR 0x0B], [CHR 0x0C], [CHR 0x0D], [CHR 0x20],
      [CHR 0xC2, CHR 0xA0],
      [CHR 0xE1, CHR 0x9A, CHR 0x80],
      [CHR 0xE2, CHR 0x80, CHR 0x80], [CHR 0xE2, CHR 0x80, CHR 0x81], [CHR 0xE2, CHR 0x80, CHR 0x82],
      [CHR 0xE2, CHR 0x80, CHR 0x83], [CHR 0xE2, CHR 0x80, CHR 0x84], [CHR 0xE2, CHR 0x80, CHR 0x85],
      [CHR 0xE2, CHR 0x80, CHR 0x86], [CHR 0xE2, CHR 0x80, CHR 0x87], [CHR 0xE2, CHR 0x80, CHR 0x88],
      [CHR 0xE2, CHR 0x80, CHR 0x89], [CHR 0xE2, CHR 0x80, CHR 0x8A],
      [CHR 0xE2, CHR 0x80, CHR 0xA8], [CHR 0xE2, CHR 0x80, CHR 0xA9], [CHR 0xE2, CHR 0x80, CHR 0xAF],
      [CHR 0xE2, CHR 0x81, CHR 0x9F],
      [CHR 0xE3, CHR 0x80, CHR 0x80],
      [CHR 0xEF, CHR 0xBB, CHR 0xBF]]"

text \<open>The length of the entry of \<open>ws\<close> that \<open>s\<close> starts with, 0 when it starts with none.\<close>

fun leading :: "string list \<Rightarrow> string \<Rightarrow> nat" where
  "leading [] s = 0"
| "leading (w # ws) s = (if w \<noteq> [] \<and> take (length w) s = w then length w else leading ws s)"

fun strip :: "string list \<Rightarrow> string \<Rightarrow> string" where
  "strip ws [] = []"
| "strip ws (c # cs) =
     (case leading ws (c # cs) of 0 \<Rightarrow> c # cs | Suc k \<Rightarrow> strip ws (drop k cs))"

definition trim :: "string \<Rightarrow> string" where
  "trim s = rev (strip (map rev white_space) (rev (strip white_space s)))"

text \<open>
  How far the body of the \<^verbatim>\<open>try\<close> has come: it ran to its end, it threw, or it is
  still polling when the status replies seen so far are used up (the loop has no bound).
\<close>

datatype try_outcome = Done app_state | Thrown error app_state | Polling app_state

text \<open>
  The loop \<^verbatim>\<open>while (!videoReady)\<close>, one status reply per round (the 3 second timer
  between rounds changes no state and is left out).  Each round first prints the task id
  into the URL it fetches.
\<close>

fun poll_video :: "(int \<Rightarrow> string) \<Rightarrow> json \<Rightarrow> fetch_reply list \<Rightarrow> app_state \<Rightarrow> try_outcome" where
  "poll_video number_text data replies s =
     (case js_String number_text (opt_prop data ''taskId'') of
        Inl e \<Rightarrow> Thrown e s
      | Inr taskId \<Rightarrow>
          (case replies of
             [] \<Rightarrow> Polling s
           | reply # rest \<Rightarrow>
               (case reply of
                  Inl e \<Rightarrow> Thrown e s
                | Inr statusRes \<Rightarrow>
                    (case json_data statusRes of
                       Inl e \<Rightarrow> Thrown e s
                     | Inr statusData \<Rightarrow>
                         (case get_prop statusData ''status'' of
                            Inl e \<Rightarrow> Thrown e s
                          | Inr st \<Rightarrow>
                              if st = JStr ''success'' then
                                Done (updateStep 4 StepCompleted
                                       ((updateStep 4 StepProcessing (updateStep 3 StepCompleted s))
                                          \<lparr>result := Some (opt_prop statusData ''videoUrl'',
                                                           opt_prop data ''musicUrl'')\<rparr>))
                              else if st = JStr ''failed'' then Thrown (Error ''Video generation failed'') s
                              else poll_video number_text data rest s)))))"

declare poll_video.simps [simp del]

definition try_body ::
  "(int \<Rightarrow> string) \<Rightarrow> fetch_reply \<Rightarrow> fetch_reply list \<Rightarrow> app_state \<Rightarrow> try_outcome" where
  "try_body number_text generate_reply status_replies s0 =
     (let s1 = updateStep 1 StepProcessing s0 in
      case generate_reply of
        Inl e \<Rightarrow> Thrown e s1
      | Inr response \<Rightarrow>
          if \<not> ok response then
            (case json_data response of
               Inl e \<Rightarrow> Thrown e s1
             | Inr data \<Rightarrow>
                 (case get_prop data ''error'' of
                    Inl e \<Rightarrow> Thrown e s1
                  | Inr m \<Rightarrow>
                      (case js_String number_text (js_or m (JStr ''Generation failed'')) of
                         Inl e \<Rightarrow> Thrown e s1
                       | Inr text_of_m \<Rightarrow> Thrown (Error text_of_m) s1)))
          else
            (let s2 = updateStep 2 StepProcessing (updateStep 1 StepCompleted s1) in
             case json_data response of
               Inl e \<Rightarrow> Thrown e s2
             | Inr data \<Rightarrow>
                 (case get_prop data ''status'' of
                    Inl e \<Rightarrow> Thrown e s2
                  | Inr st \<Rightarrow>
                      if st = JStr ''processing'' then
                        poll_video number_text data status_replies
                          (updateStep 3 StepProcessing (updateStep 2 StepCompleted s2))
                      else Done s2)))"

text \<open>
  The handler of the \<^verbatim>\<open>catch\<close>.  It walks the array \<^verbatim>\<open>progress\<close> that the closure of
  \<^verbatim>\<open>handleGenerate\<close> captured when the component was rendered, and queues an update of
  the current state for each of its steps that is processing.
\<close>

definition catch_handler :: "GenerationStep list \<Rightarrow> error \<Rightarrow> app_state \<Rightarrow> app_state" where
  "catch_handler captured err s =
     fold (\<lambda>step s'. if step_status step = StepProcessing then updateStep (step_id step) StepError s' else s')
          captured
          (s\<lparr>error_text := Some (message err)\<rparr>)"

text \<open>
  \<^verbatim>\<open>handleGenerate\<close>, called on the state \<open>s\<close> of the render it belongs to (the button is
  disabled while a run is in flight).  The result is the state after the run, or the
  state reached so far when the run is still polling.  \<open>number_text\<close> is the printing of
  large numbers that \<^verbatim>\<open>String\<close> needs.
\<close>

datatype run = Returned app_state | StillPolling app_state

definition handleGenerate ::
  "(int \<Rightarrow> string) \<Rightarrow> app_state \<Rightarrow> fetch_reply \<Rightarrow> fetch_reply list \<Rightarrow> run" where
  "handleGenerate number_text s generate_reply status_replies =
     (if image s = None \<or> trim (theme_text s) = [] then
        Returned (s\<lparr>error_text := Some ''Please upload an image and enter a theme''\<rparr>)
      else
        case try_body number_text generate_reply status_replies
               (s\<lparr>isGenerating := True, error_text := None, result := None\<rparr>) of
          Done s' \<Rightarrow> Returned (s'\<lparr>isGenerating := False\<rparr>)
        | Thrown err s' \<Rightarrow> Returned ((catch_handler (progress s) err s')\<lparr>isGenerating := False\<rparr>)
        | Polling s' \<Rightarrow> StillPolling s')"

section \<open>Observations\<close>

text \<open>A handler yields its response, the registry it leaves and the requests it made.\<close>

definition response_of :: "http_response \<times> registry \<times> trace \<Rightarrow> http_response" where
  "response_of r = fst r"

definition registry_of :: "http_response \<times> registry \<times> trace \<Rightarrow> registry" where
  "registry_of r = fst (snd r)"

definition trace_of :: "http_response \<times> registry \<times> trace \<Rightarrow> trace" where
  "trace_of r = snd (snd r)"

text \<open>The value of a property of a response body, when the body has it.\<close>

definition body_field :: "http_response \<Rightarrow> string \<Rightarrow> json option" where
  "body_field res name = (case body res of JObj kvs \<Rightarrow> map_of kvs name | _ \<Rightarrow> None)"

text \<open>\<^verbatim>\<open>typeof v === 'string'\<close>.\<close>

fun is_string :: "json \<Rightarrow> bool" where
  "is_string (JStr s) = True"
| "is_string v = False"

text \<open>The payload that \<^verbatim>\<open>generateLyrics\<close> posts for a theme.\<close>

definition lyrics_request :: "string option \<Rightarrow> json" where
  "lyrics_request topic =
     JObj [(''mode'', JStr ''write_full_song''),
           (''prompt'', JStr (''Anime opening song about: '' @ template topic @
              ''. Write a dramatic, emotional J-pop style song with verse, chorus, bridge structure.''))]"


text \<open>The URL that the first answer of the image generation carries, if any.\<close>

definition initial_image_url :: "json \<Rightarrow> json" where
  "initial_image_url imageResult =
     js_or (opt_index0 (opt_prop (opt_prop imageResult ''data'') ''image_urls''))
           (opt_prop (opt_prop imageResult ''image'') ''image_url'')"

text \<open>What the \<open>i\<close>-th image status query of a run reports.\<close>

definition reports_success :: "provider \<Rightarrow> json \<Rightarrow> nat \<Rightarrow> bool" where
  "reports_success P taskId i =
     (case snd (query_image P taskId i) of
        Inr statusResult \<Rightarrow> opt_prop statusResult ''status'' = JStr ''success''
      | Inl e \<Rightarrow> False)"

definition reported_url :: "provider \<Rightarrow> json \<Rightarrow> nat \<Rightarrow> json" where
  "reported_url P taskId i =
     (case snd (query_image P taskId i) of
        Inr statusResult \<Rightarrow>
          js_or (opt_prop (opt_prop statusResult ''image'') ''image_url'')
                (opt_index0 (opt_prop (opt_prop statusResult ''data'') ''image_urls''))
      | Inl e \<Rightarrow> JUndefined)"

text \<open>The times at which the image status queries of a trace were sent.\<close>

fun is_image_query :: "event \<Rightarrow> bool" where
  "is_image_query (GetImageStatus taskId) = True"
| "is_image_query e = False"

definition query_times :: "trace \<Rightarrow> nat list" where
  "query_times tr = map fst (filter (\<lambda>(t, e). is_image_query e) tr)"

text \<open>The status the provider reports for a video task, undefined when the query throws.\<close>

definition upstream_status :: "provider \<Rightarrow> string \<Rightarrow> json" where
  "upstream_status P taskId =
     (case snd (query_video P taskId) of Inr statusResult \<Rightarrow> opt_prop statusResult ''status'' | Inl e \<Rightarrow> JUndefined)"

text \<open>The state a run of the client leaves, or has reached so far.\<close>

fun final_state :: "run \<Rightarrow> app_state" where
  "final_state (Returned s) = s"
| "final_state (StillPolling s) = s"

text \<open>The progress at the moment the body of the \<^verbatim>\<open>try\<close> throws.\<close>

fun progress_when_thrown :: "try_outcome \<Rightarrow> GenerationStep list option" where
  "progress_when_thrown (Thrown err s) = Some (progress s)"
| "progress_when_thrown outcome = None"

section \<open>Scripted providers and runs\<close>

text \<open>
  A provider that answers each endpoint with a fixed reply, the \<open>i\<close>-th image status
  query with \<open>image_status i\<close>, every request after 120 ms and every timer 1 ms late.
\<close>

definition scripted_provider ::
  "json result \<Rightarrow> json result \<Rightarrow> json result \<Rightarrow> json result \<Rightarrow> (nat \<Rightarrow> json result) \<Rightarrow> json result \<Rightarrow> provider" where
  "scripted_provider image_reply lyrics_reply music_reply video_reply image_status video_status =
     \<lparr>post = (\<lambda>endpoint data.
         (120, if endpoint = ''/image_generation'' then image_reply
               else if endpoint = ''/lyrics_generation'' then lyrics_reply
               else if endpoint = ''/music_generation'' then music_reply
               else video_reply)),
      query_image = (\<lambda>taskId i. (120, image_status i)),
      query_video = (\<lambda>taskId. (120, video_status)),
      timer_slack = (\<lambda>i. 1)\<rparr>"

text \<open>Answers of the shapes the code looks for.\<close>

definition image_direct :: json where
  "image_direct = JObj [(''data'', JObj [(''image_urls'', JArr [JStr ''https://cdn.example/image.png''])])]"

definition image_queued :: json where
  "image_queued = JObj [(''task_id'', JStr ''img-1'')]"

definition image_queued_with_url :: json where
  "image_queued_with_url =
     JObj [(''id'', JStr ''img-2''),
           (''image'', JObj [(''image_url'', JStr ''https://cdn.example/first.png'')])]"

definition image_done :: json where
  "image_done = JObj [(''status'', JStr ''success''),
                      (''image'', JObj [(''image_url'', JStr ''https://cdn.example/polled.png'')])]"

definition still_running :: json where
  "still_running = JObj [(''status'', JStr ''Processing'')]"

definition lyrics_ok :: json where
  "lyrics_ok = JObj [(''lyrics'', JStr ''[Verse] la la la'')]"

definition music_ok :: json where
  "music_ok = JObj [(''data'', JObj [(''audio'', JStr ''https://cdn.example/song.mp3'')])]"

definition video_queued :: json where
  "video_queued = JObj [(''task_id'', JStr ''vid-1'')]"

definition video_done :: json where
  "video_done = JObj [(''status'', JStr ''success''),
                      (''video'', JObj [(''video_url'', JStr ''https://cdn.example/video.mp4'')])]"

definition video_failed :: json where
  "video_failed = JObj [(''status'', JStr ''failed'')]"


definition upstream_500 :: "json result" where
  "upstream_500 = Inl (RequestError ''Request failed with status code 500'')"

text \<open>A task as POST /api/generate registers it.\<close>

definition stored_task :: task where
  "stored_task =
     \<lparr>theme = Some ''Epic battle scene with dramatic orchestra'',
      imageUrl = JStr ''https://cdn.example/image.png'',
      musicUrl = JStr ''https://cdn.example/song.mp3'',
      lyrics = JStr ''[Verse] la la la'',
      status = Processing, createdAt = 1000, videoUrl = JUndefined\<rparr>"

text \<open>Providers: each differs from the first in one answer.\<close>

definition provider_all_ok :: provider where
  "provider_all_ok =
     scripted_provider (Inr image_queued) (Inr lyrics_ok) (Inr music_ok) (Inr video_queued)
       (\<lambda>i. if i < 2 then Inr still_running else Inr image_done) (Inr video_done)"


definition provider_image_never_ready :: provider where
  "provider_image_never_ready =
     scripted_provider (Inr image_queued_with_url) (Inr lyrics_ok) (Inr music_ok) (Inr video_queued)
       (\<lambda>i. if i = 1 then upstream_500 else Inr still_running) (Inr video_done)"

definition provider_lyrics_down :: provider where
  "provider_lyrics_down =
     scripted_provider (Inr image_direct) upstream_500 (Inr music_ok) (Inr video_queued)
       (\<lambda>i. upstream_500) (Inr video_done)"

definition provider_empty_lyrics :: provider where
  "provider_empty_lyrics =
     scripted_provider (Inr image_direct) (Inr (JObj [(''lyrics'', JStr [])])) (Inr music_ok)
       (Inr video_queued) (\<lambda>i. upstream_500) (Inr video_done)"

definition provider_numeric_lyrics :: provider where
  "provider_numeric_lyrics =
     scripted_provider (Inr image_direct) (Inr (JObj [(''lyrics'', JNum 42)])) (Inr music_ok)
       (Inr video_queued) (\<lambda>i. upstream_500) (Inr video_done)"

definition provider_video_failed :: provider where
  "provider_video_failed =
     scripted_provider (Inr image_direct) (Inr lyrics_ok) (Inr music_ok) (Inr video_queued)
       (\<lambda>i. upstream_500) (Inr video_failed)"

definition provider_video_running :: provider where
  "provider_video_running =
     scripted_provider (Inr image_direct) (Inr lyrics_ok) (Inr music_ok) (Inr video_queued)
       (\<lambda>i. upstream_500) (Inr still_running)"



text \<open>The freshly mounted component with a file and a theme entered, and answers of the server.\<close>

definition fresh_state :: app_state where
  "fresh_state =
     \<lparr>image = Some 204800, theme_text = ''Epic battle scene with dramatic orchestra'',
      isGenerating = False, progress = initial_progress, result = None, error_text = None\<rparr>"

definition reply_500 :: fetch_reply where
  "reply_500 = Inr \<lparr>ok = False, json_data = Inr (JObj [(''error'', JStr ''Request failed with status code 500'')])\<rparr>"

definition reply_processing :: fetch_reply where
  "reply_processing =
     Inr \<lparr>ok = True, json_data = Inr (JObj [(''status'', JStr ''processing''), (''taskId'', JStr ''vid-1'')])\<rparr>"

definition reply_status :: "string \<Rightarrow> fetch_reply" where
  "reply_status st = Inr \<lparr>ok = True, json_data = Inr (JObj [(''status'', JStr st)])\<rparr>"

section \<open>Auxiliary facts\<close>

lemmas run_defs =
  generate_def resolve_image_def generateImage_def generateLyrics_def generateMusic_def
  generateVideo_def minimaxRequest_def queryImageStatus_def sleep_def image_poll_loop.simps
  scripted_provider_def image_prompt_def js_or_def res_json_def res_status_json_def
  response_of_def registry_of_def trace_of_def body_field_def message_or_def Let_def
  image_queued_def image_direct_def image_done_def still_running_def lyrics_ok_def music_ok_def
  video_queued_def video_done_def video_failed_def upstream_500_def

lemma getDefaultLyrics_truthy: "truthy (getDefaultLyrics topic)"
  by (simp add: getDefaultLyrics_def default_lyrics_lines_def)

lemma js_or_truthy: "truthy b \<Longrightarrow> truthy (js_or a b)"
  by (simp add: js_or_def)

lemma opt_prop_of_get_prop: "get_prop v name = Inr x \<Longrightarrow> x = opt_prop v name"
  by (cases v) auto

lemma get_prop_Inl: "get_prop v name = Inl e \<Longrightarrow> opt_prop v name = JUndefined"
  by (cases v) auto

lemma minimaxRequest_eq:
  "minimaxRequest P endpoint d now = (r, t, tr) \<Longrightarrow>
     r = snd (post P endpoint d) \<and> tr = [(now, Post endpoint d)]"
  by (auto simp: minimaxRequest_def split: prod.splits)

lemma generateLyrics_value:
  "\<exists>d. generateLyrics P topic now =
     (Inr (case snd (post P ''/lyrics_generation'' d) of
             Inl e \<Rightarrow> getDefaultLyrics topic
           | Inr r \<Rightarrow> js_or (opt_prop r ''lyrics'') (getDefaultLyrics topic)),
      now + fst (post P ''/lyrics_generation'' d), [(now, Post ''/lyrics_generation'' d)])"
  unfolding generateLyrics_def minimaxRequest_def
  by (rule exI, auto split: prod.splits sum.splits dest: opt_prop_of_get_prop get_prop_Inl simp: js_or_def)

lemma generateLyrics_run:
  "generateLyrics P topic now =
     (Inr (case snd (post P ''/lyrics_generation'' (lyrics_request topic)) of
             Inl e \<Rightarrow> getDefaultLyrics topic
           | Inr r \<Rightarrow> js_or (opt_prop r ''lyrics'') (getDefaultLyrics topic)),
      now + fst (post P ''/lyrics_generation'' (lyrics_request topic)),
      [(now, Post ''/lyrics_generation'' (lyrics_request topic))])"
  unfolding generateLyrics_def minimaxRequest_def lyrics_request_def
  by (auto split: prod.splits sum.splits dest: opt_prop_of_get_prop get_prop_Inl simp: js_or_def)

lemma generateLyrics_Inr:
  assumes "generateLyrics P topic now = (r, t, tr)"
  shows "\<exists>v. r = Inr v \<and> truthy v"
proof -
  obtain d where "generateLyrics P topic now =
     (Inr (case snd (post P ''/lyrics_generation'' d) of
             Inl e \<Rightarrow> getDefaultLyrics topic
           | Inr r \<Rightarrow> js_or (opt_prop r ''lyrics'') (getDefaultLyrics topic)),
      now + fst (post P ''/lyrics_generation'' d), [(now, Post ''/lyrics_generation'' d)])"
    using generateLyrics_value by blast
  with assms have "r = Inr (case snd (post P ''/lyrics_generation'' d) of
             Inl e \<Rightarrow> getDefaultLyrics topic
           | Inr r \<Rightarrow> js_or (opt_prop r ''lyrics'') (getDefaultLyrics topic))"
    by simp
  then show ?thesis
    by (cases "snd (post P ''/lyrics_generation'' d)")
       (simp_all add: getDefaultLyrics_truthy js_or_truthy)
qed


lemma generateVideo_eq:
  "generateVideo P u topic now = (r, t, tr) \<Longrightarrow> \<exists>d. snd (post P ''/video_generation'' d) = r"
  unfolding generateVideo_def by (auto dest!: minimaxRequest_eq)



lemma code_res_json [simp]: "code (res_json obj) = 200"
  by (simp add: res_json_def)

lemma code_res_status_json [simp]: "code (res_status_json c obj) = c"
  by (simp add: res_status_json_def)

lemma generate_200_shape:
  assumes ok: "code (response_of (generate key P now tasks topic)) = 200"
  shows "key \<noteq> [] \<and> (\<exists>image lyr music taskId t tr.
      generate key P now tasks topic =
        (res_json [(''status'', JStr (if truthy taskId then ''processing'' else ''completed'')),
                   (''taskId'', taskId), (''musicUrl'', music), (''imageUrl'', image), (''lyrics'', lyr)],
         (if truthy taskId then
            tasks_set tasks taskId
              \<lparr>theme = topic, imageUrl = image, musicUrl = music, lyrics = lyr,
               status = Processing, createdAt = t, videoUrl = JUndefined\<rparr>
          else tasks),
         tr)
    \<and> (\<exists>t0 tr0. resolve_image P topic now = (Inr image, t0, tr0))
    \<and> (\<exists>t1 t2 tr2. generateLyrics P topic t1 = (Inr lyr, t2, tr2))
    \<and> (if truthy image then
          \<exists>d videoResult. snd (post P ''/video_generation'' d) = Inr videoResult \<and>
             taskId = js_or (js_or (opt_prop videoResult ''task_id'')
                                   (opt_prop (opt_prop videoResult ''task'') ''task_id''))
                            videoResult
        else taskId = JNull))"
    (is "_ \<and> (\<exists>image lyr music taskId t tr. ?B image lyr music taskId t tr)")
proof -
  have key: "key \<noteq> []"
    using ok by (auto simp: generate_def response_of_def)
  obtain r1 t1 tr1 where ri: "resolve_image P topic now = (r1, t1, tr1)"
    by (cases "resolve_image P topic now") auto
  obtain image where r1: "r1 = Inr image"
    using ok key ri by (cases r1) (auto simp: generate_def response_of_def)
  obtain r2 t2 tr2 where gl: "generateLyrics P topic t1 = (r2, t2, tr2)"
    by (cases "generateLyrics P topic t1") auto
  obtain lyr where r2: "r2 = Inr lyr"
    using generateLyrics_Inr [OF gl] by blast
  obtain r3 t3 tr3 where gm: "generateMusic P topic lyr t2 = (r3, t3, tr3)"
    by (cases "generateMusic P topic lyr t2") auto
  obtain musicResult where r3: "r3 = Inr musicResult"
    using ok key ri r1 gl r2 gm by (cases r3) (auto simp: generate_def response_of_def)
  show ?thesis
  proof (cases "truthy image")
    case False
    then have "generate key P now tasks topic =
        (res_json [(''status'', JStr (if truthy JNull then ''processing'' else ''completed'')),
                   (''taskId'', JNull),
                   (''musicUrl'', js_or (js_or (js_or (js_or (js_or
                            (opt_prop (opt_prop musicResult ''data'') ''audio'')
                            (opt_prop musicResult ''audio_file''))
                            (opt_prop (opt_prop musicResult ''audio'') ''file_url''))
                            (opt_prop musicResult ''file_url''))
                            (opt_prop musicResult ''url''))
                            musicResult),
                   (''imageUrl'', image), (''lyrics'', lyr)],
         tasks, tr1 @ tr2 @ tr3)"
      using key ri r1 gl r2 gm r3 by (simp add: generate_def Let_def)
    with False ri r1 gl r2 have "?B image lyr (js_or (js_or (js_or (js_or (js_or
                            (opt_prop (opt_prop musicResult ''data'') ''audio'')
                            (opt_prop musicResult ''audio_file''))
                            (opt_prop (opt_prop musicResult ''audio'') ''file_url''))
                            (opt_prop musicResult ''file_url''))
                            (opt_prop musicResult ''url''))
                            musicResult) JNull t3 (tr1 @ tr2 @ tr3)"
      by auto
    with key show ?thesis by blast
  next
    case True
    obtain r4 t4 tr4 where gv: "generateVideo P image topic t3 = (r4, t4, tr4)"
      by (cases "generateVideo P image topic t3") auto
    obtain videoResult where r4: "r4 = Inr videoResult"
      using ok key ri r1 gl r2 gm r3 gv True by (cases r4) (auto simp: generate_def response_of_def)
    obtain d where d: "snd (post P ''/video_generation'' d) = Inr videoResult"
      using generateVideo_eq [OF gv] r4 by blast
    define taskId where "taskId = js_or (js_or (opt_prop videoResult ''task_id'')
                                   (opt_prop (opt_prop videoResult ''task'') ''task_id''))
                            videoResult"
    define music where "music = js_or (js_or (js_or (js_or (js_or
                            (opt_prop (opt_prop musicResult ''data'') ''audio'')
                            (opt_prop musicResult ''audio_file''))
                            (opt_prop (opt_prop musicResult ''audio'') ''file_url''))
                            (opt_prop musicResult ''file_url''))
                            (opt_prop musicResult ''url''))
                            musicResult"
    have "generate key P now tasks topic =
        (res_json [(''status'', JStr (if truthy taskId then ''processing'' else ''completed'')),
                   (''taskId'', taskId), (''musicUrl'', music), (''imageUrl'', image), (''lyrics'', lyr)],
         (if truthy taskId then
            tasks_set tasks taskId
              \<lparr>theme = topic, imageUrl = image, musicUrl = music, lyrics = lyr,
               status = Processing, createdAt = t4, videoUrl = JUndefined\<rparr>
          else tasks),
         tr1 @ tr2 @ tr3 @ tr4)"
      using key ri r1 gl r2 gm r3 gv r4 True by (simp add: generate_def taskId_def music_def Let_def)
    moreover have "\<exists>d videoResult. snd (post P ''/video_generation'' d) = Inr videoResult \<and>
             taskId = js_or (js_or (opt_prop videoResult ''task_id'')
                                   (opt_prop (opt_prop videoResult ''task'') ''task_id''))
                            videoResult"
      using d taskId_def by blast
    ultimately have "?B image lyr music taskId t4 (tr1 @ tr2 @ tr3 @ tr4)"
      using True ri r1 gl r2 by auto
    with key show ?thesis by blast
  qed
qed


lemma map_of_filter_defined:
  "distinct (map fst obj) \<Longrightarrow>
   map_of (filter (\<lambda>(k, v). v \<noteq> JUndefined) obj) name =
     (case map_of obj name of Some v \<Rightarrow> if v = JUndefined then None else Some v | None \<Rightarrow> None)"
proof (induction obj)
  case Nil
  then show ?case by simp
next
  case (Cons kv obj)
  obtain k v where kv: "kv = (k, v)" by (cases kv)
  from Cons.prems kv have notin: "k \<notin> fst ` set obj" by simp
  then have "map_of obj k = None" by (simp add: map_of_eq_None_iff)
  with Cons kv show ?case by (auto split: option.splits)
qed

lemma body_field_res_json:
  "distinct (map fst obj) \<Longrightarrow>
   body_field (res_json obj) name =
     (case map_of obj name of Some v \<Rightarrow> if v = JUndefined then None else Some v | None \<Rightarrow> None)"
  by (simp add: body_field_def res_json_def map_of_filter_defined)





section \<open>Claims about POST /api/generate\<close>





text \<open>
  Claim C10, as amended.  \<^verbatim>\<open>generateLyrics\<close> never throws and returns a truthy value
  for every theme and every provider: never undefined, null or the empty string.  When
  the answer to its request carries a truthy lyrics field, the result is that field as it
  is, string or not; when the field is missing or falsy, or the request fails, the result
  is the fallback text.  So when no answer carries a truthy lyrics field the result is the
  fallback text, and when every lyrics field the provider sends is a string or falsy the
  result is a non-empty string.
\<close>

theorem generateLyrics_truthy_result:
  "\<exists>v. fst (generateLyrics P topic now) = Inr v \<and> truthy v
      \<and> v \<noteq> JUndefined \<and> v \<noteq> JNull \<and> v \<noteq> JStr []
      \<and> (\<forall>r. snd (post P ''/lyrics_generation'' (lyrics_request topic)) = Inr r
               \<and> truthy (opt_prop r ''lyrics'') \<longrightarrow> v = opt_prop r ''lyrics'')
      \<and> (\<forall>r. snd (post P ''/lyrics_generation'' (lyrics_request topic)) = Inr r
               \<and> \<not> truthy (opt_prop r ''lyrics'') \<longrightarrow> v = JStr (join_lines default_lyrics_lines))
      \<and> (\<forall>e. snd (post P ''/lyrics_generation'' (lyrics_request topic)) = Inl e
               \<longrightarrow> v = JStr (join_lines default_lyrics_lines))
      \<and> ((\<forall>d r. snd (post P ''/lyrics_generation'' d) = Inr r \<longrightarrow> \<not> truthy (opt_prop r ''lyrics''))
            \<longrightarrow> v = JStr (join_lines default_lyrics_lines))
      \<and> ((\<forall>d r. snd (post P ''/lyrics_generation'' d) = Inr r \<longrightarrow>
              \<not> truthy (opt_prop r ''lyrics'') \<or> (\<exists>s. opt_prop r ''lyrics'' = JStr s))
            \<longrightarrow> (\<exists>s. v = JStr s \<and> s \<noteq> []))"
proof -
  let ?reply = "snd (post P ''/lyrics_generation'' (lyrics_request topic))"
  define v where "v = (case ?reply of
             Inl e \<Rightarrow> getDefaultLyrics topic
           | Inr r \<Rightarrow> js_or (opt_prop r ''lyrics'') (getDefaultLyrics topic))"
  have res: "fst (generateLyrics P topic now) = Inr v"
    by (simp add: generateLyrics_run v_def)
  have tv: "truthy v"
    by (cases ?reply) (simp_all add: v_def getDefaultLyrics_truthy js_or_truthy)
  then have ne: "v \<noteq> JUndefined" "v \<noteq> JNull" "v \<noteq> JStr []" by auto
  have pass: "v = opt_prop r ''lyrics''"
    if "?reply = Inr r \<and> truthy (opt_prop r ''lyrics'')" for r
    using that by (simp add: v_def js_or_def)
  have falsy: "v = JStr (join_lines default_lyrics_lines)"
    if "?reply = Inr r \<and> \<not> truthy (opt_prop r ''lyrics'')" for r
    using that by (simp add: v_def js_or_def getDefaultLyrics_def)
  have failed: "v = JStr (join_lines default_lyrics_lines)"
    if "?reply = Inl e" for e
    using that by (simp add: v_def getDefaultLyrics_def)
  have fb: "v = JStr (join_lines default_lyrics_lines)"
    if h: "\<forall>d r. snd (post P ''/lyrics_generation'' d) = Inr r \<longrightarrow> \<not> truthy (opt_prop r ''lyrics'')"
  proof (cases ?reply)
    case (Inl e)
    then show ?thesis by (rule failed)
  next
    case (Inr r)
    with h [rule_format, OF Inr] show ?thesis by (intro falsy) simp
  qed
  have str: "\<exists>s. v = JStr s \<and> s \<noteq> []"
    if h: "\<forall>d r. snd (post P ''/lyrics_generation'' d) = Inr r \<longrightarrow>
              \<not> truthy (opt_prop r ''lyrics'') \<or> (\<exists>s. opt_prop r ''lyrics'' = JStr s)"
  proof -
    have "\<exists>s. v = JStr s"
    proof (cases ?reply)
      case (Inl e)
      then have "v = JStr (join_lines default_lyrics_lines)" by (rule failed)
      then show ?thesis by simp
    next
      case (Inr r)
      show ?thesis
      proof (cases "truthy (opt_prop r ''lyrics'')")
        case True
        with h [rule_format, OF Inr] obtain s where s: "opt_prop r ''lyrics'' = JStr s"
          by blast
        from Inr True have "v = opt_prop r ''lyrics''" by (intro pass) simp
        with s show ?thesis by simp
      next
        case False
        with Inr have "v = JStr (join_lines default_lyrics_lines)" by (intro falsy) simp
        then show ?thesis by simp
      qed
    qed
    then obtain s where s: "v = JStr s" ..
    with tv have "s \<noteq> []" by simp
    with s show ?thesis by simp
  qed
  show ?thesis
    apply (rule exI [of _ v])
    apply (intro conjI impI allI)
             apply (rule res)
            apply (rule tv)
           apply (rule ne)+
        apply (erule pass)
       apply (erule falsy)
      apply (erule failed)
     apply (erule fb)
    apply (erule str)
    done
qed

theorem generateLyrics_truthy_result_witness:
  "fst (generateLyrics provider_empty_lyrics (Some ''Epic battle'') 0)
     = Inr (JStr (join_lines default_lyrics_lines))
   \<and> fst (generateLyrics provider_lyrics_down (Some ''Epic battle'') 0)
     = Inr (JStr (join_lines default_lyrics_lines))
   \<and> fst (generateLyrics provider_all_ok (Some ''Epic battle'') 0)
     = Inr (JStr ''[Verse] la la la'')
   \<and> truthy (JStr (join_lines default_lyrics_lines))"
proof -
  have empty: "snd (post provider_empty_lyrics ''/lyrics_generation'' (lyrics_request (Some ''Epic battle'')))
      = Inr (JObj [(''lyrics'', JStr [])])"
    by (simp add: provider_empty_lyrics_def scripted_provider_def)
  have down: "snd (post provider_lyrics_down ''/lyrics_generation'' (lyrics_request (Some ''Epic battle'')))
      = Inl (RequestError ''Request failed with status code 500'')"
    by (simp add: provider_lyrics_down_def scripted_provider_def upstream_500_def)
  have sung: "snd (post provider_all_ok ''/lyrics_generation'' (lyrics_request (Some ''Epic battle'')))
      = Inr lyrics_ok"
    by (simp add: provider_all_ok_def scripted_provider_def)
  have field: "opt_prop lyrics_ok ''lyrics'' = JStr ''[Verse] la la la''"
    by (simp add: lyrics_ok_def)
  have t: "truthy (JStr (join_lines default_lyrics_lines))"
    by (simp add: default_lyrics_lines_def)
  from generateLyrics_truthy_result [of provider_empty_lyrics "Some ''Epic battle''" 0] empty
  have 1: "fst (generateLyrics provider_empty_lyrics (Some ''Epic battle'') 0)
     = Inr (JStr (join_lines default_lyrics_lines))"
    by auto
  from generateLyrics_truthy_result [of provider_lyrics_down "Some ''Epic battle''" 0] down
  have 2: "fst (generateLyrics provider_lyrics_down (Some ''Epic battle'') 0)
     = Inr (JStr (join_lines default_lyrics_lines))"
    by auto
  from generateLyrics_truthy_result [of provider_all_ok "Some ''Epic battle''" 0] sung field
  have 3: "fst (generateLyrics provider_all_ok (Some ''Epic battle'') 0)
     = Inr (JStr ''[Verse] la la la'')"
    by auto
  from 1 2 3 t show ?thesis by simp
qed

text \<open>
  Claim C10 as stated fails: a provider that answers with a number in the lyrics field
  makes \<^verbatim>\<open>generateLyrics\<close> return that number, which is not a string.
\<close>

theorem generateLyrics_non_string_counterexample:
  "fst (generateLyrics provider_numeric_lyrics (Some ''Epic battle'') 0) = Inr (JNum 42)
   \<and> \<not> is_string (JNum 42)"
  by (simp add: run_defs provider_numeric_lyrics_def)

section \<open>Auxiliary facts about the status endpoint\<close>

lemma tasks_get_set_same: "tasks_get (tasks_set tasks (JStr k) v) k = Some v"
  by (induction tasks) (auto simp: tasks_get_def)

lemma tasks_get_set_other:
  "k' \<noteq> k \<Longrightarrow> tasks_get (tasks_set tasks (JStr k) v) k' = tasks_get tasks k'"
  by (induction tasks) (auto simp: tasks_get_def)

lemma tasks_set_idem:
  "tasks_set (tasks_set tasks (JStr k) v) (JStr k) v = tasks_set tasks (JStr k) v"
  by (induction tasks) auto

lemma status_handler_unknown:
  "tasks_get tasks taskId = None \<Longrightarrow>
   status_handler P now tasks taskId =
     (res_status_json 404 [(''error'', JStr ''Task not found'')], tasks, [])"
  by (simp add: status_handler_def)

lemma status_handler_success:
  assumes "tasks_get tasks taskId = Some t"
    and "snd (query_video P taskId) = Inr statusResult"
    and "opt_prop statusResult ''status'' = JStr ''success''"
  shows "status_handler P now tasks taskId =
     (res_json [(''status'', JStr ''success''),
                (''videoUrl'', opt_prop (opt_prop statusResult ''video'') ''video_url'')],
      tasks_set tasks (JStr taskId)
        (t\<lparr>status := Success, videoUrl := opt_prop (opt_prop statusResult ''video'') ''video_url''\<rparr>),
      [(now, GetVideoStatus taskId)])"
proof -
  obtain ms where q: "query_video P taskId = (ms, Inr statusResult)"
    using assms(2) by (cases "query_video P taskId") auto
  have g: "get_prop statusResult ''status'' = Inr (JStr ''success'')"
    using assms(3) by (cases statusResult) auto
  show ?thesis
    using assms(1) q g
    by (simp add: status_handler_def queryVideoStatus_def mergeVideoAndAudio_def Let_def)
qed

lemma status_handler_failed:
  assumes "tasks_get tasks taskId = Some t"
    and "snd (query_video P taskId) = Inr statusResult"
    and "opt_prop statusResult ''status'' = JStr ''failed''"
  shows "status_handler P now tasks taskId =
     (res_json [(''status'', JStr ''failed''), (''error'', JStr ''Video generation failed'')],
      tasks_set tasks (JStr taskId) (t\<lparr>status := Failed\<rparr>),
      [(now, GetVideoStatus taskId)])"
proof -
  obtain ms where q: "query_video P taskId = (ms, Inr statusResult)"
    using assms(2) by (cases "query_video P taskId") auto
  have g: "get_prop statusResult ''status'' = Inr (JStr ''failed'')"
    using assms(3) by (cases statusResult) auto
  show ?thesis
    using assms(1) q g
    by (simp add: status_handler_def queryVideoStatus_def Let_def)
qed

text \<open>What a poll does to the registry.\<close>

lemma status_handler_registry:
  "registry_of (status_handler P now tasks taskId) = tasks
   \<or> (\<exists>t statusResult. tasks_get tasks taskId = Some t
         \<and> snd (query_video P taskId) = Inr statusResult
         \<and> opt_prop statusResult ''status'' = JStr ''success''
         \<and> registry_of (status_handler P now tasks taskId) =
             tasks_set tasks (JStr taskId)
               (t\<lparr>status := Success, videoUrl := opt_prop (opt_prop statusResult ''video'') ''video_url''\<rparr>))
   \<or> (\<exists>t statusResult. tasks_get tasks taskId = Some t
         \<and> snd (query_video P taskId) = Inr statusResult
         \<and> opt_prop statusResult ''status'' = JStr ''failed''
         \<and> registry_of (status_handler P now tasks taskId) =
             tasks_set tasks (JStr taskId) (t\<lparr>status := Failed\<rparr>))"
proof (cases "tasks_get tasks taskId")
  case None
  then show ?thesis by (simp add: status_handler_unknown registry_of_def)
next
  case (Some t)
  obtain ms r where q: "query_video P taskId = (ms, r)"
    by (cases "query_video P taskId") auto
  show ?thesis
  proof (cases r)
    case (Inl e)
    with Some q show ?thesis
      by (simp add: status_handler_def queryVideoStatus_def registry_of_def)
  next
    case (Inr statusResult)
    show ?thesis
    proof (cases "get_prop statusResult ''status''")
      case (Inl e)
      with Some q Inr show ?thesis
        by (simp add: status_handler_def queryVideoStatus_def registry_of_def)
    next
      case st: (Inr st)
      then have st_eq: "st = opt_prop statusResult ''status''"
        by (rule opt_prop_of_get_prop)
      consider "st = JStr ''success''" | "st = JStr ''failed''"
        | "st \<noteq> JStr ''success''" "st \<noteq> JStr ''failed''" by blast
      then show ?thesis
      proof cases
        case 1
        with st_eq have "opt_prop statusResult ''status'' = JStr ''success''" by simp
        from status_handler_success [OF Some _ this, of P now] q Inr Some this
        show ?thesis by (simp add: registry_of_def)
      next
        case 2
        with st_eq have "opt_prop statusResult ''status'' = JStr ''failed''" by simp
        from status_handler_failed [OF Some _ this, of P now] q Inr Some this
        show ?thesis by (simp add: registry_of_def)
      next
        case 3
        with Some q Inr st show ?thesis
          by (simp add: status_handler_def queryVideoStatus_def registry_of_def)
      qed
    qed
  qed
qed

lemma poll_step:
  assumes "tasks_get tasks k = Some t"
  shows "\<exists>t'. tasks_get (registry_of (status_handler P now tasks taskId)) k = Some t'
          \<and> (t' = t
               \<or> (k = taskId \<and> status t' = Success \<and> upstream_status P taskId = JStr ''success'')
               \<or> (k = taskId \<and> status t' = Failed \<and> upstream_status P taskId = JStr ''failed''))"
proof -
  consider
    (same) "registry_of (status_handler P now tasks taskId) = tasks"
  | (success) u statusResult where "tasks_get tasks taskId = Some u"
      "snd (query_video P taskId) = Inr statusResult"
      "opt_prop statusResult ''status'' = JStr ''success''"
      "registry_of (status_handler P now tasks taskId) =
         tasks_set tasks (JStr taskId)
           (u\<lparr>status := Success, videoUrl := opt_prop (opt_prop statusResult ''video'') ''video_url''\<rparr>)"
  | (failed) u statusResult where "tasks_get tasks taskId = Some u"
      "snd (query_video P taskId) = Inr statusResult"
      "opt_prop statusResult ''status'' = JStr ''failed''"
      "registry_of (status_handler P now tasks taskId) =
         tasks_set tasks (JStr taskId) (u\<lparr>status := Failed\<rparr>)"
    using status_handler_registry [of P now tasks taskId] by blast
  then show ?thesis
  proof cases
    case same
    with assms show ?thesis by simp
  next
    case success
    show ?thesis
    proof (cases "k = taskId")
      case True
      with success show ?thesis
        by (simp add: tasks_get_set_same upstream_status_def)
    next
      case False
      with success assms show ?thesis
        by (simp add: tasks_get_set_other)
    qed
  next
    case failed
    show ?thesis
    proof (cases "k = taskId")
      case True
      with failed show ?thesis
        by (simp add: tasks_get_set_same upstream_status_def)
    next
      case False
      with failed assms show ?thesis
        by (simp add: tasks_get_set_other)
    qed
  qed
qed

section \<open>Claims about GET /api/status/:taskId\<close>

lemmas poll_defs =
  status_handler_def queryVideoStatus_def mergeVideoAndAudio_def tasks_get_def upstream_status_def
  scripted_provider_def res_json_def res_status_json_def response_of_def registry_of_def
  trace_of_def body_field_def message_or_def Let_def stored_task_def
  video_done_def video_failed_def still_running_def upstream_500_def

text \<open>
  Claim C2, as amended.  A poll leaves every stored task stored, and changes a status
  only to \<^verbatim>\<open>success\<close> or to \<^verbatim>\<open>failed\<close>, and only for the polled task when the
  upstream query of that poll reports that status, whatever the stored status was.
  Over any sequence of polls a terminal status never goes back to \<^verbatim>\<open>processing\<close> (a
  task that is still processing has not been touched at all); \<^verbatim>\<open>success\<close> stays as
  long as no poll meets an upstream \<^verbatim>\<open>failed\<close>, and \<^verbatim>\<open>failed\<close> stays as long as no
  poll meets an upstream \<^verbatim>\<open>success\<close>.
\<close>

theorem poll_status_changes:
  assumes "tasks_get tasks k = Some t"
  shows "(\<exists>u. tasks_get (registry_of (status_handler P now tasks taskId)) k = Some u
          \<and> (u = t
               \<or> (k = taskId \<and> status u = Success \<and> upstream_status P taskId = JStr ''success'')
               \<or> (k = taskId \<and> status u = Failed \<and> upstream_status P taskId = JStr ''failed'')))
       \<and> (\<exists>t'. tasks_get (run_polls tasks polls) k = Some t'
          \<and> (status t \<noteq> Processing \<longrightarrow> status t' \<noteq> Processing)
          \<and> (status t' = Processing \<longrightarrow> t' = t)
          \<and> (status t = Success \<and> (\<forall>(P, now, taskId) \<in> set polls. upstream_status P k \<noteq> JStr ''failed'')
                \<longrightarrow> status t' = Success)
          \<and> (status t = Failed \<and> (\<forall>(P, now, taskId) \<in> set polls. upstream_status P k \<noteq> JStr ''success'')
                \<longrightarrow> status t' = Failed))"
proof
  show "\<exists>u. tasks_get (registry_of (status_handler P now tasks taskId)) k = Some u
          \<and> (u = t
               \<or> (k = taskId \<and> status u = Success \<and> upstream_status P taskId = JStr ''success'')
               \<or> (k = taskId \<and> status u = Failed \<and> upstream_status P taskId = JStr ''failed''))"
    using assms by (rule poll_step)
  show "\<exists>t'. tasks_get (run_polls tasks polls) k = Some t'
          \<and> (status t \<noteq> Processing \<longrightarrow> status t' \<noteq> Processing)
          \<and> (status t' = Processing \<longrightarrow> t' = t)
          \<and> (status t = Success \<and> (\<forall>(P, now, taskId) \<in> set polls. upstream_status P k \<noteq> JStr ''failed'')
                \<longrightarrow> status t' = Success)
          \<and> (status t = Failed \<and> (\<forall>(P, now, taskId) \<in> set polls. upstream_status P k \<noteq> JStr ''success'')
                \<longrightarrow> status t' = Failed)"
    using assms
  proof (induction polls arbitrary: tasks t)
    case Nil
    then show ?case by simp
  next
    case (Cons poll polls)
    obtain P now taskId where poll: "poll = (P, now, taskId)"
      by (cases poll) auto
    obtain u where u: "tasks_get (registry_of (status_handler P now tasks taskId)) k = Some u"
      and step: "u = t
                 \<or> (k = taskId \<and> status u = Success \<and> upstream_status P taskId = JStr ''success'')
                 \<or> (k = taskId \<and> status u = Failed \<and> upstream_status P taskId = JStr ''failed'')"
      using poll_step [OF Cons.prems, of P now taskId] by blast
    obtain t' where t': "tasks_get (run_polls (registry_of (status_handler P now tasks taskId)) polls) k = Some t'"
      and a: "status u \<noteq> Processing \<longrightarrow> status t' \<noteq> Processing"
      and b: "status t' = Processing \<longrightarrow> t' = u"
      and c: "status u = Success \<and> (\<forall>(P, now, taskId) \<in> set polls. upstream_status P k \<noteq> JStr ''failed'')
                  \<longrightarrow> status t' = Success"
      and d: "status u = Failed \<and> (\<forall>(P, now, taskId) \<in> set polls. upstream_status P k \<noteq> JStr ''success'')
                  \<longrightarrow> status t' = Failed"
      using Cons.IH [OF u] by blast
    have run: "run_polls tasks (poll # polls) = run_polls (registry_of (status_handler P now tasks taskId)) polls"
      by (simp add: poll registry_of_def)
    have 1: "status t \<noteq> Processing \<longrightarrow> status t' \<noteq> Processing"
      using step a by auto
    have 2: "status t' = Processing \<longrightarrow> t' = t"
      using step a b by auto
    have 3: "status t = Success \<and> (\<forall>(P, now, taskId) \<in> set (poll # polls). upstream_status P k \<noteq> JStr ''failed'')
                  \<longrightarrow> status t' = Success"
      using step c poll by auto
    have 4: "status t = Failed \<and> (\<forall>(P, now, taskId) \<in> set (poll # polls). upstream_status P k \<noteq> JStr ''success'')
                  \<longrightarrow> status t' = Failed"
      using step d poll by auto
    show ?case
      unfolding run using t' 1 2 3 4 by blast
  qed
qed

theorem poll_status_changes_witness:
  "tasks_get [(JStr ''vid-1'', stored_task)] ''vid-1'' = Some stored_task
   \<and> tasks_get (run_polls [(JStr ''vid-1'', stored_task)]
        [(provider_video_running, 3000, ''vid-1''), (provider_all_ok, 6000, ''vid-1''),
         (provider_video_running, 9000, ''vid-1''), (provider_all_ok, 12000, ''vid-1'')]) ''vid-1''
      = Some (stored_task\<lparr>status := Success, videoUrl := JStr ''https://cdn.example/video.mp4''\<rparr>)
   \<and> tasks_get (run_polls [(JStr ''vid-1'', stored_task\<lparr>status := Success\<rparr>)]
        [(provider_video_running, 3000, ''vid-1''), (provider_all_ok, 6000, ''vid-1'')]) ''vid-1''
      = Some (stored_task\<lparr>status := Success, videoUrl := JStr ''https://cdn.example/video.mp4''\<rparr>)
   \<and> tasks_get (run_polls [(JStr ''vid-1'', stored_task\<lparr>status := Failed\<rparr>)]
        [(provider_video_running, 3000, ''vid-1''), (provider_video_failed, 6000, ''vid-1'')]) ''vid-1''
      = Some (stored_task\<lparr>status := Failed\<rparr>)"
proof -
  have reg: "tasks_get [(JStr ''vid-1'', stored_task)] ''vid-1'' = Some stored_task"
    by (simp add: tasks_get_def)
  have reg_s: "tasks_get [(JStr ''vid-1'', stored_task\<lparr>status := Success\<rparr>)] ''vid-1''
      = Some (stored_task\<lparr>status := Success\<rparr>)"
    by (simp add: tasks_get_def)
  have reg_f: "tasks_get [(JStr ''vid-1'', stored_task\<lparr>status := Failed\<rparr>)] ''vid-1''
      = Some (stored_task\<lparr>status := Failed\<rparr>)"
    by (simp add: tasks_get_def)
  show ?thesis
    using poll_status_changes [OF reg, of provider_all_ok 6000 "''vid-1''"
            "[(provider_video_running, 3000, ''vid-1''), (provider_all_ok, 6000, ''vid-1''),
              (provider_video_running, 9000, ''vid-1''), (provider_all_ok, 12000, ''vid-1'')]"]
          poll_status_changes [OF reg_s, of provider_video_running 3000 "''vid-1''"
            "[(provider_video_running, 3000, ''vid-1''), (provider_all_ok, 6000, ''vid-1'')]"]
          poll_status_changes [OF reg_f, of provider_video_running 3000 "''vid-1''"
            "[(provider_video_running, 3000, ''vid-1''), (provider_video_failed, 6000, ''vid-1'')]"]
    by (simp add: poll_defs provider_all_ok_def provider_video_running_def provider_video_failed_def)
qed

text \<open>
  Claim C2 as stated fails: the handler does not look at the stored status, so a task
  that a poll has set to \<^verbatim>\<open>success\<close> is set to \<^verbatim>\<open>failed\<close> by a later poll whose
  upstream query reports \<^verbatim>\<open>failed\<close>.
\<close>

theorem poll_status_success_to_failed_counterexample:
  "map_option status (tasks_get (run_polls [(JStr ''vid-1'', stored_task)]
        [(provider_all_ok, 3000, ''vid-1'')]) ''vid-1'') = Some Success
   \<and> map_option status (tasks_get (run_polls [(JStr ''vid-1'', stored_task)]
        [(provider_all_ok, 3000, ''vid-1''), (provider_video_failed, 6000, ''vid-1'')]) ''vid-1'') = Some Failed"
  by (simp add: poll_defs provider_all_ok_def provider_video_failed_def)

text \<open>
  Claim C5.  Polling a registered task whose upstream status is \<^verbatim>\<open>success\<close> answers
  \<^verbatim>\<open>{status: "success", videoUrl}\<close> with the video URL of the upstream answer (the
  merge passes it through; an undefined URL is left out of the body), and stores the
  task with status \<^verbatim>\<open>success\<close> and that URL.  A second poll that meets the same
  upstream answer gives the same response and leaves the registry as the first poll
  left it.
\<close>

theorem success_poll_is_idempotent:
  assumes "tasks_get tasks taskId = Some t"
    and "snd (query_video P taskId) = Inr statusResult"
    and "opt_prop statusResult ''status'' = JStr ''success''"
    and "snd (query_video P' taskId) = Inr statusResult"
  shows "response_of (status_handler P now tasks taskId) =
           res_json [(''status'', JStr ''success''),
                     (''videoUrl'', opt_prop (opt_prop statusResult ''video'') ''video_url'')]
       \<and> tasks_get (registry_of (status_handler P now tasks taskId)) taskId =
           Some (t\<lparr>status := Success, videoUrl := opt_prop (opt_prop statusResult ''video'') ''video_url''\<rparr>)
       \<and> response_of (status_handler P' now' (registry_of (status_handler P now tasks taskId)) taskId) =
           response_of (status_handler P now tasks taskId)
       \<and> registry_of (status_handler P' now' (registry_of (status_handler P now tasks taskId)) taskId) =
           registry_of (status_handler P now tasks taskId)"
proof -
  let ?url = "opt_prop (opt_prop statusResult ''video'') ''video_url''"
  let ?t = "t\<lparr>status := Success, videoUrl := ?url\<rparr>"
  have first: "status_handler P now tasks taskId =
     (res_json [(''status'', JStr ''success''), (''videoUrl'', ?url)],
      tasks_set tasks (JStr taskId) ?t, [(now, GetVideoStatus taskId)])"
    using assms(1-3) by (rule status_handler_success)
  have stored: "tasks_get (tasks_set tasks (JStr taskId) ?t) taskId = Some ?t"
    by (rule tasks_get_set_same)
  have second: "status_handler P' now' (tasks_set tasks (JStr taskId) ?t) taskId =
     (res_json [(''status'', JStr ''success''), (''videoUrl'', ?url)],
      tasks_set (tasks_set tasks (JStr taskId) ?t) (JStr taskId)
        (?t\<lparr>status := Success, videoUrl := ?url\<rparr>),
      [(now', GetVideoStatus taskId)])"
    using stored assms(4) assms(3) by (rule status_handler_success)
  have same: "?t\<lparr>status := Success, videoUrl := ?url\<rparr> = ?t" by simp
  show ?thesis
    by (simp add: first second same stored tasks_set_idem response_of_def registry_of_def)
qed

theorem success_poll_is_idempotent_witness:
  "tasks_get [(JStr ''vid-1'', stored_task)] ''vid-1'' = Some stored_task
   \<and> response_of (status_handler provider_all_ok 3000 [(JStr ''vid-1'', stored_task)] ''vid-1'') =
       \<lparr>code = 200, body = JObj [(''status'', JStr ''success''),
                                 (''videoUrl'', JStr ''https://cdn.example/video.mp4'')]\<rparr>
   \<and> registry_of (status_handler provider_all_ok 3000 [(JStr ''vid-1'', stored_task)] ''vid-1'') =
       [(JStr ''vid-1'', stored_task\<lparr>status := Success, videoUrl := JStr ''https://cdn.example/video.mp4''\<rparr>)]
   \<and> registry_of (status_handler provider_all_ok 6000
         (registry_of (status_handler provider_all_ok 3000 [(JStr ''vid-1'', stored_task)] ''vid-1'')) ''vid-1'') =
       [(JStr ''vid-1'', stored_task\<lparr>status := Success, videoUrl := JStr ''https://cdn.example/video.mp4''\<rparr>)]"
proof -
  have reg: "tasks_get [(JStr ''vid-1'', stored_task)] ''vid-1'' = Some stored_task"
    by (simp add: tasks_get_def)
  have up: "snd (query_video provider_all_ok ''vid-1'') = Inr video_done"
    by (simp add: provider_all_ok_def scripted_provider_def)
  have st: "opt_prop video_done ''status'' = JStr ''success''"
    by (simp add: video_done_def)
  show ?thesis
    using success_poll_is_idempotent [OF reg up st up, of 3000 6000]
    by (simp add: poll_defs provider_all_ok_def)
qed

text \<open>
  Claim C6.  Polling a task id under which nothing is stored answers 404 with the
  error payload, makes no upstream request and leaves the registry as it is.
\<close>

theorem unknown_task_is_404_without_query:
  assumes "JStr taskId \<notin> fst ` set tasks"
  shows "code (response_of (status_handler P now tasks taskId)) = 404
       \<and> body (response_of (status_handler P now tasks taskId)) = JObj [(''error'', JStr ''Task not found'')]
       \<and> trace_of (status_handler P now tasks taskId) = []
       \<and> registry_of (status_handler P now tasks taskId) = tasks"
proof -
  from assms have "tasks_get tasks taskId = None"
    by (simp add: tasks_get_def map_of_eq_None_iff)
  then show ?thesis
    by (simp add: status_handler_unknown response_of_def trace_of_def registry_of_def res_status_json_def)
qed

theorem unknown_task_is_404_without_query_witness:
  "JStr ''vid-2'' \<notin> fst ` set [(JStr ''vid-1'', stored_task)]
   \<and> response_of (status_handler provider_all_ok 3000 [(JStr ''vid-1'', stored_task)] ''vid-2'') =
       \<lparr>code = 404, body = JObj [(''error'', JStr ''Task not found'')]\<rparr>
   \<and> trace_of (status_handler provider_all_ok 3000 [(JStr ''vid-1'', stored_task)] ''vid-2'') = []"
proof -
  have unknown: "JStr ''vid-2'' \<notin> fst ` set [(JStr ''vid-1'', stored_task)]"
    by simp
  show ?thesis
    using unknown_task_is_404_without_query [OF unknown, of provider_all_ok 3000]
    by (simp add: poll_defs)
qed

text \<open>
  Claim C7.  Whenever the status endpoint answers \<^verbatim>\<open>{status: "processing"}\<close> the
  registry, and so every field of every stored task, is unchanged; and it answers so
  for a registered task whenever the upstream reports neither \<^verbatim>\<open>success\<close> nor
  \<^verbatim>\<open>failed\<close>.
\<close>

theorem processing_poll_leaves_registry_unchanged:
  "(response_of (status_handler P now tasks taskId) = res_json [(''status'', JStr ''processing'')]
      \<longrightarrow> registry_of (status_handler P now tasks taskId) = tasks)
   \<and> (tasks_get tasks taskId = Some t \<and> snd (query_video P taskId) = Inr statusResult
       \<and> statusResult \<noteq> JNull \<and> statusResult \<noteq> JUndefined
       \<and> opt_prop statusResult ''status'' \<noteq> JStr ''success''
       \<and> opt_prop statusResult ''status'' \<noteq> JStr ''failed''
      \<longrightarrow> response_of (status_handler P now tasks taskId) = res_json [(''status'', JStr ''processing'')]
          \<and> registry_of (status_handler P now tasks taskId) = tasks)"
proof (intro conjI impI)
  assume proc: "response_of (status_handler P now tasks taskId) = res_json [(''status'', JStr ''processing'')]"
  consider
    (same) "registry_of (status_handler P now tasks taskId) = tasks"
  | (success) u statusResult where "tasks_get tasks taskId = Some u"
      "snd (query_video P taskId) = Inr statusResult"
      "opt_prop statusResult ''status'' = JStr ''success''"
  | (failed) u statusResult where "tasks_get tasks taskId = Some u"
      "snd (query_video P taskId) = Inr statusResult"
      "opt_prop statusResult ''status'' = JStr ''failed''"
    using status_handler_registry [of P now tasks taskId] by blast
  then show "registry_of (status_handler P now tasks taskId) = tasks"
  proof cases
    case same
    then show ?thesis .
  next
    case success
    from status_handler_success [OF success, of now] proc show ?thesis
      by (simp add: response_of_def res_json_def)
  next
    case failed
    from status_handler_failed [OF failed, of now] proc show ?thesis
      by (simp add: response_of_def res_json_def)
  qed
next
  assume h: "tasks_get tasks taskId = Some t \<and> snd (query_video P taskId) = Inr statusResult
       \<and> statusResult \<noteq> JNull \<and> statusResult \<noteq> JUndefined
       \<and> opt_prop statusResult ''status'' \<noteq> JStr ''success''
       \<and> opt_prop statusResult ''status'' \<noteq> JStr ''failed''"
  obtain ms where q: "query_video P taskId = (ms, Inr statusResult)"
    using h by (cases "query_video P taskId") auto
  have g: "get_prop statusResult ''status'' = Inr (opt_prop statusResult ''status'')"
    using h by (cases statusResult) auto
  have run: "status_handler P now tasks taskId =
      (res_json [(''status'', JStr ''processing'')], tasks, [(now, GetVideoStatus taskId)])"
    using h q g by (simp add: status_handler_def queryVideoStatus_def)
  show "response_of (status_handler P now tasks taskId) = res_json [(''status'', JStr ''processing'')]"
    by (simp add: run response_of_def)
  show "registry_of (status_handler P now tasks taskId) = tasks"
    by (simp add: run registry_of_def)
qed

theorem processing_poll_leaves_registry_unchanged_witness:
  "tasks_get [(JStr ''vid-1'', stored_task)] ''vid-1'' = Some stored_task
   \<and> response_of (status_handler provider_video_running 3000 [(JStr ''vid-1'', stored_task)] ''vid-1'') =
       res_json [(''status'', JStr ''processing'')]
   \<and> registry_of (status_handler provider_video_running 3000 [(JStr ''vid-1'', stored_task)] ''vid-1'') =
       [(JStr ''vid-1'', stored_task)]"
  using processing_poll_leaves_registry_unchanged
          [of provider_video_running 3000 "[(JStr ''vid-1'', stored_task)]" "''vid-1''" stored_task still_running]
  by (simp add: poll_defs provider_video_running_def)

section \<open>Auxiliary facts about the image polling loop\<close>

lemma image_poll_loop_done:
  "\<not> i < 5 \<Longrightarrow> image_poll_loop P tid i now = (JNull, now, [])"
  by (simp add: image_poll_loop.simps)

lemma image_poll_loop_success:
  assumes "i < 5" and "reports_success P tid i"
  shows "image_poll_loop P tid i now =
     (reported_url P tid i,
      now + 2000 + timer_slack P i + fst (query_image P tid i),
      [(now, Timeout 2000), (now + 2000 + timer_slack P i, GetImageStatus tid)])"
proof -
  obtain ms r where q: "query_image P tid i = (ms, r)"
    by (cases "query_image P tid i") auto
  with assms(2) obtain statusResult where r: "r = Inr statusResult"
    and s: "opt_prop statusResult ''status'' = JStr ''success''"
    by (cases r) (auto simp: reports_success_def)
  show ?thesis
    using assms(1) q r s
    by (subst image_poll_loop.simps)
       (simp add: sleep_def queryImageStatus_def reported_url_def)
qed

lemma image_poll_loop_continue:
  assumes "i < 5" and "\<not> reports_success P tid i"
  shows "image_poll_loop P tid i now =
     (case image_poll_loop P tid (Suc i) (now + 2000 + timer_slack P i + fst (query_image P tid i)) of
        (url, t', tr) \<Rightarrow>
          (url, t', [(now, Timeout 2000), (now + 2000 + timer_slack P i, GetImageStatus tid)] @ tr))"
proof -
  obtain ms r where q: "query_image P tid i = (ms, r)"
    by (cases "query_image P tid i") auto
  show ?thesis
  proof (cases r)
    case (Inl e)
    with assms(1) q show ?thesis
      by (subst image_poll_loop.simps)
         (simp add: sleep_def queryImageStatus_def split: prod.splits)
  next
    case (Inr statusResult)
    with assms(2) q have "opt_prop statusResult ''status'' \<noteq> JStr ''success''"
      by (simp add: reports_success_def)
    with assms(1) q Inr show ?thesis
      by (subst image_poll_loop.simps)
         (simp add: sleep_def queryImageStatus_def split: prod.splits)
  qed
qed

lemma query_times_Cons_loop:
  "query_times ([(now, Timeout d), (w, GetImageStatus tid)] @ tr) = w # query_times tr"
  by (simp add: query_times_def)

text \<open>The loop asks at most \<open>5 - i\<close> times, first after 2000 ms, then 2000 ms apart.\<close>

lemma image_poll_loop_queries:
  "length (query_times (snd (snd (image_poll_loop P tid i now)))) \<le> 5 - i
   \<and> (\<forall>q \<in> set (query_times (snd (snd (image_poll_loop P tid i now)))). now + 2000 \<le> q)
   \<and> sorted_wrt (\<lambda>a b. a + 2000 \<le> b) (query_times (snd (snd (image_poll_loop P tid i now))))"
proof (induction "5 - i" arbitrary: i now)
  case 0
  then have "\<not> i < 5" by simp
  then show ?case by (simp add: image_poll_loop_done query_times_def)
next
  case (Suc n)
  then have i: "i < 5" by simp
  let ?w = "now + 2000 + timer_slack P i"
  let ?t = "?w + fst (query_image P tid i)"
  show ?case
  proof (cases "reports_success P tid i")
    case True
    show ?thesis
      using i by (simp add: image_poll_loop_success [OF i True] query_times_def)
  next
    case False
    obtain url t' tr where rest: "image_poll_loop P tid (Suc i) ?t = (url, t', tr)"
      by (cases "image_poll_loop P tid (Suc i) ?t") auto
    from Suc have "n = 5 - Suc i" by simp
    from Suc.hyps(1) [OF this, of ?t] rest
    have len: "length (query_times tr) \<le> 5 - Suc i"
      and lower: "\<forall>q \<in> set (query_times tr). ?t + 2000 \<le> q"
      and spaced: "sorted_wrt (\<lambda>a b. a + 2000 \<le> b) (query_times tr)"
      by simp_all
    have run: "snd (snd (image_poll_loop P tid i now)) =
        [(now, Timeout 2000), (?w, GetImageStatus tid)] @ tr"
      by (simp add: image_poll_loop_continue [OF i False] rest)
    have qt: "query_times (snd (snd (image_poll_loop P tid i now))) = ?w # query_times tr"
      unfolding run by (rule query_times_Cons_loop)
    show ?thesis
      unfolding qt using i len lower spaced by auto
  qed
qed

text \<open>The loop stops at the first attempt that reports success.\<close>

lemma image_poll_loop_first_success:
  assumes "i \<le> k" and "k < 5" and "reports_success P tid k"
    and "\<forall>j. i \<le> j \<and> j < k \<longrightarrow> \<not> reports_success P tid j"
  shows "fst (image_poll_loop P tid i now) = reported_url P tid k
       \<and> length (query_times (snd (snd (image_poll_loop P tid i now)))) = Suc k - i"
  using assms
proof (induction "k - i" arbitrary: i now)
  case 0
  then have ik: "i = k" by simp
  show ?case
    unfolding ik
    by (simp add: image_poll_loop_success [OF "0.prems"(2) "0.prems"(3)] query_times_def)
next
  case (Suc n)
  then have lt: "i < k" by simp
  with Suc.prems have i: "i < 5" and ns: "\<not> reports_success P tid i" by auto
  let ?t = "now + 2000 + timer_slack P i + fst (query_image P tid i)"
  obtain url t' tr where rest: "image_poll_loop P tid (Suc i) ?t = (url, t', tr)"
    by (cases "image_poll_loop P tid (Suc i) ?t") auto
  have n: "n = k - Suc i" using Suc.hyps(2) by simp
  have le: "Suc i \<le> k" using lt by simp
  have none: "\<forall>j. Suc i \<le> j \<and> j < k \<longrightarrow> \<not> reports_success P tid j"
    using Suc.prems(4) by auto
  from Suc.hyps(1) [OF n le Suc.prems(2) Suc.prems(3) none, of ?t] rest
  have url: "url = reported_url P tid k" and len: "length (query_times tr) = Suc k - Suc i"
    by simp_all
  have run: "image_poll_loop P tid i now =
      (url, t', [(now, Timeout 2000), (now + 2000 + timer_slack P i, GetImageStatus tid)] @ tr)"
    by (simp add: image_poll_loop_continue [OF i ns] rest)
  show ?case
    unfolding run using url len lt by (simp add: query_times_Cons_loop del: append.simps)
qed

text \<open>Without a success the loop makes all its attempts and leaves the URL null.\<close>

lemma image_poll_loop_no_success:
  assumes "\<forall>j. i \<le> j \<and> j < 5 \<longrightarrow> \<not> reports_success P tid j"
  shows "fst (image_poll_loop P tid i now) = JNull
       \<and> length (query_times (snd (snd (image_poll_loop P tid i now)))) = 5 - i"
  using assms
proof (induction "5 - i" arbitrary: i now)
  case 0
  then have "\<not> i < 5" by simp
  then show ?case by (simp add: image_poll_loop_done query_times_def)
next
  case (Suc n)
  then have i: "i < 5" by simp
  with Suc.prems have ns: "\<not> reports_success P tid i" by simp
  let ?t = "now + 2000 + timer_slack P i + fst (query_image P tid i)"
  obtain url t' tr where rest: "image_poll_loop P tid (Suc i) ?t = (url, t', tr)"
    by (cases "image_poll_loop P tid (Suc i) ?t") auto
  have n: "n = 5 - Suc i" using Suc.hyps(2) by simp
  have none: "\<forall>j. Suc i \<le> j \<and> j < 5 \<longrightarrow> \<not> reports_success P tid j"
    using Suc.prems by auto
  from Suc.hyps(1) [OF n none, of ?t] rest
  have url: "url = JNull" and len: "length (query_times tr) = 5 - Suc i"
    by simp_all
  have run: "image_poll_loop P tid i now =
      (url, t', [(now, Timeout 2000), (now + 2000 + timer_slack P i, GetImageStatus tid)] @ tr)"
    by (simp add: image_poll_loop_continue [OF i ns] rest)
  show ?case
    unfolding run using url len i by (simp add: query_times_Cons_loop del: append.simps)
qed

lemma query_times_append: "query_times (xs @ ys) = query_times xs @ query_times ys"
  by (simp add: query_times_def)

lemma query_times_minimaxRequest:
  "minimaxRequest P endpoint d now = (r, t, tr) \<Longrightarrow> query_times tr = []"
  by (auto simp: minimaxRequest_def query_times_def split: prod.splits)

lemma query_times_generateLyrics:
  "generateLyrics P topic now = (r, t, tr) \<Longrightarrow> query_times tr = []"
  using generateLyrics_value [of P topic now] by (auto simp: query_times_def)

lemma query_times_generateMusic:
  "generateMusic P topic l now = (r, t, tr) \<Longrightarrow> query_times tr = []"
  unfolding generateMusic_def by (rule query_times_minimaxRequest)

lemma query_times_generateVideo:
  "generateVideo P u topic now = (r, t, tr) \<Longrightarrow> query_times tr = []"
  unfolding generateVideo_def by (rule query_times_minimaxRequest)

lemma query_times_generateImage:
  "generateImage P p now = (r, t, tr) \<Longrightarrow> query_times tr = []"
  unfolding generateImage_def by (rule query_times_minimaxRequest)

text \<open>Only step 1 of the handler sends image status queries.\<close>

lemma generate_query_times:
  assumes key: "key \<noteq> []"
  shows "query_times (trace_of (generate key P now tasks topic)) =
         query_times (snd (snd (resolve_image P topic now)))"
proof -
  obtain r1 t1 tr1 where ri: "resolve_image P topic now = (r1, t1, tr1)"
    by (cases "resolve_image P topic now") auto
  show ?thesis
  proof (cases r1)
    case (Inl e)
    with key ri show ?thesis by (simp add: generate_def trace_of_def)
  next
    case r1: (Inr image)
    obtain r2 t2 tr2 where gl: "generateLyrics P topic t1 = (r2, t2, tr2)"
      by (cases "generateLyrics P topic t1") auto
    obtain lyr where r2: "r2 = Inr lyr"
      using generateLyrics_Inr [OF gl] by blast
    have q2: "query_times tr2 = []"
      using gl by (rule query_times_generateLyrics)
    obtain r3 t3 tr3 where gm: "generateMusic P topic lyr t2 = (r3, t3, tr3)"
      by (cases "generateMusic P topic lyr t2") auto
    have q3: "query_times tr3 = []"
      using gm by (rule query_times_generateMusic)
    show ?thesis
    proof (cases r3)
      case (Inl e)
      with key ri r1 gl r2 gm q2 q3 show ?thesis
        by (simp add: generate_def trace_of_def query_times_append)
    next
      case r3: (Inr musicResult)
      show ?thesis
      proof (cases "truthy image")
        case False
        with key ri r1 gl r2 gm r3 q2 q3 show ?thesis
          by (simp add: generate_def trace_of_def query_times_append Let_def)
      next
        case True
        obtain r4 t4 tr4 where gv: "generateVideo P image topic t3 = (r4, t4, tr4)"
          by (cases "generateVideo P image topic t3") auto
        have q4: "query_times tr4 = []"
          using gv by (rule query_times_generateVideo)
        show ?thesis
        proof (cases r4)
          case (Inl e)
          with key ri r1 gl r2 gm r3 gv True q2 q3 q4 show ?thesis
            by (simp add: generate_def trace_of_def query_times_append Let_def)
        next
          case (Inr videoResult)
          with key ri r1 gl r2 gm r3 gv True q2 q3 q4 show ?thesis
            by (simp add: generate_def trace_of_def query_times_append Let_def)
        qed
      qed
    qed
  qed
qed

lemma resolve_image_polled:
  assumes gi: "generateImage P (image_prompt topic) now = (Inr imageResult, t, tr0)"
    and tid: "tid = js_or (opt_prop imageResult ''id'') (opt_prop imageResult ''task_id'')"
    and tr: "truthy tid"
  shows "fst (resolve_image P topic now) =
           Inr (if truthy (fst (image_poll_loop P tid 0 t)) then fst (image_poll_loop P tid 0 t)
                else initial_image_url imageResult)"
    and "query_times (snd (snd (resolve_image P topic now))) =
           query_times (snd (snd (image_poll_loop P tid 0 t)))"
proof -
  obtain url t' tr' where loop: "image_poll_loop P tid 0 t = (url, t', tr')"
    by (cases "image_poll_loop P tid 0 t") auto
  have q0: "query_times tr0 = []"
    using gi by (rule query_times_generateImage)
  have run: "resolve_image P topic now =
      (Inr (if \<not> truthy url then initial_image_url imageResult else url), t', tr0 @ tr')"
    using gi tr loop unfolding tid
    by (simp add: resolve_image_def initial_image_url_def Let_def)
  show "fst (resolve_image P topic now) =
           Inr (if truthy (fst (image_poll_loop P tid 0 t)) then fst (image_poll_loop P tid 0 t)
                else initial_image_url imageResult)"
    by (simp add: run loop)
  show "query_times (snd (snd (resolve_image P topic now))) =
           query_times (snd (snd (image_poll_loop P tid 0 t)))"
    by (simp add: run loop q0 query_times_append)
qed

section \<open>Claims about the image polling and the task id\<close>

text \<open>
  Claim C4.  When the image generation answers with a task id, a run of POST
  /api/generate sends at most 5 image status queries, the first at least 2000 ms after
  that answer and any two at least 2000 ms apart.  If attempt \<open>k\<close> is the first to report
  success, exactly \<open>k + 1\<close> queries are sent and the image URL is the one of that answer
  (or, when that answer carries none, the one of the first response); if none of the 5
  attempts reports success, all 5 are sent and the image URL is the one of the first
  response.  The body of a 200 answer carries that image URL.
\<close>

theorem image_polling_is_bounded_and_falls_back:
  assumes key: "key \<noteq> []"
    and gi: "generateImage P (image_prompt topic) now = (Inr imageResult, t, tr0)"
    and tid: "tid = js_or (opt_prop imageResult ''id'') (opt_prop imageResult ''task_id'')"
    and tr: "truthy tid"
  shows "length (query_times (trace_of (generate key P now tasks topic))) \<le> 5
       \<and> sorted_wrt (\<lambda>a b. a + 2000 \<le> b) (query_times (trace_of (generate key P now tasks topic)))
       \<and> (\<forall>q \<in> set (query_times (trace_of (generate key P now tasks topic))). t + 2000 \<le> q)
       \<and> (\<forall>k < 5. reports_success P tid k \<and> (\<forall>j < k. \<not> reports_success P tid j) \<longrightarrow>
             length (query_times (trace_of (generate key P now tasks topic))) = Suc k
           \<and> fst (resolve_image P topic now) =
               Inr (if truthy (reported_url P tid k) then reported_url P tid k
                    else initial_image_url imageResult))
       \<and> ((\<forall>k < 5. \<not> reports_success P tid k) \<longrightarrow>
             length (query_times (trace_of (generate key P now tasks topic))) = 5
           \<and> fst (resolve_image P topic now) = Inr (initial_image_url imageResult))
       \<and> (code (response_of (generate key P now tasks topic)) = 200 \<longrightarrow>
             (\<exists>image. fst (resolve_image P topic now) = Inr image
                \<and> body_field (response_of (generate key P now tasks topic)) ''imageUrl'' =
                    (if image = JUndefined then None else Some image)))"
proof -
  let ?loop = "image_poll_loop P tid 0 t"
  have qt: "query_times (trace_of (generate key P now tasks topic)) = query_times (snd (snd ?loop))"
    using generate_query_times [OF key] resolve_image_polled(2) [OF gi tid tr] by simp
  have res: "fst (resolve_image P topic now) =
           Inr (if truthy (fst ?loop) then fst ?loop else initial_image_url imageResult)"
    using gi tid tr by (rule resolve_image_polled(1))
  have bound: "length (query_times (snd (snd ?loop))) \<le> 5"
    and lower: "\<forall>q \<in> set (query_times (snd (snd ?loop))). t + 2000 \<le> q"
    and spaced: "sorted_wrt (\<lambda>a b. a + 2000 \<le> b) (query_times (snd (snd ?loop)))"
    using image_poll_loop_queries [of P tid 0 t] by simp_all
  have early: "length (query_times (snd (snd ?loop))) = Suc k
           \<and> fst (resolve_image P topic now) =
               Inr (if truthy (reported_url P tid k) then reported_url P tid k
                    else initial_image_url imageResult)"
    if "k < 5" and "reports_success P tid k \<and> (\<forall>j < k. \<not> reports_success P tid j)" for k
  proof -
    have "fst ?loop = reported_url P tid k
       \<and> length (query_times (snd (snd ?loop))) = Suc k - 0"
      using that by (intro image_poll_loop_first_success) auto
    then show ?thesis by (simp add: res)
  qed
  have exhausted: "length (query_times (snd (snd ?loop))) = 5
           \<and> fst (resolve_image P topic now) = Inr (initial_image_url imageResult)"
    if "\<forall>k < 5. \<not> reports_success P tid k"
  proof -
    have "fst ?loop = JNull \<and> length (query_times (snd (snd ?loop))) = 5 - 0"
      using that by (intro image_poll_loop_no_success) auto
    then show ?thesis by (simp add: res)
  qed
  have shown: "\<exists>image. fst (resolve_image P topic now) = Inr image
                \<and> body_field (response_of (generate key P now tasks topic)) ''imageUrl'' =
                    (if image = JUndefined then None else Some image)"
    if ok: "code (response_of (generate key P now tasks topic)) = 200"
  proof -
    obtain image lyr music taskId t' tr' t0 tr0' where
      g: "generate key P now tasks topic =
        (res_json [(''status'', JStr (if truthy taskId then ''processing'' else ''completed'')),
                   (''taskId'', taskId), (''musicUrl'', music), (''imageUrl'', image), (''lyrics'', lyr)],
         (if truthy taskId then
            tasks_set tasks taskId
              \<lparr>theme = topic, imageUrl = image, musicUrl = music, lyrics = lyr,
               status = Processing, createdAt = t', videoUrl = JUndefined\<rparr>
          else tasks),
         tr')"
      and ri: "resolve_image P topic now = (Inr image, t0, tr0')"
      using generate_200_shape [OF ok] by blast
    have "body_field (response_of (generate key P now tasks topic)) ''imageUrl'' =
            (if image = JUndefined then None else Some image)"
      by (simp add: g response_of_def body_field_res_json)
    with ri show ?thesis by simp
  qed
  show ?thesis
    unfolding qt using bound lower spaced early exhausted shown qt by auto
qed

theorem image_polling_is_bounded_and_falls_back_witness:
  "query_times (trace_of (generate ''sk-test'' provider_all_ok 0 [] (Some ''Epic battle'')))
     = [2121, 4242, 6363]
   \<and> fst (resolve_image provider_all_ok (Some ''Epic battle'') 0)
     = Inr (JStr ''https://cdn.example/polled.png'')
   \<and> query_times (trace_of (generate ''sk-test'' provider_image_never_ready 0 [] (Some ''Epic battle'')))
     = [2121, 4242, 6363, 8484, 10605]
   \<and> fst (resolve_image provider_image_never_ready (Some ''Epic battle'') 0)
     = Inr (JStr ''https://cdn.example/first.png'')"
proof -
  have key: "''sk-test'' \<noteq> []" by simp
  have gi1: "generateImage provider_all_ok (image_prompt (Some ''Epic battle'')) 0 =
      (Inr image_queued, 120,
       snd (snd (generateImage provider_all_ok (image_prompt (Some ''Epic battle'')) 0)))"
    by (simp add: generateImage_def minimaxRequest_def provider_all_ok_def scripted_provider_def)
  have tid1: "JStr ''img-1'' = js_or (opt_prop image_queued ''id'') (opt_prop image_queued ''task_id'')"
    by (simp add: image_queued_def js_or_def)
  have gi2: "generateImage provider_image_never_ready (image_prompt (Some ''Epic battle'')) 0 =
      (Inr image_queued_with_url, 120,
       snd (snd (generateImage provider_image_never_ready (image_prompt (Some ''Epic battle'')) 0)))"
    by (simp add: generateImage_def minimaxRequest_def provider_image_never_ready_def scripted_provider_def)
  have tid2: "JStr ''img-2'' =
      js_or (opt_prop image_queued_with_url ''id'') (opt_prop image_queued_with_url ''task_id'')"
    by (simp add: image_queued_with_url_def js_or_def)
  have tr1: "truthy (JStr ''img-1'')" and tr2: "truthy (JStr ''img-2'')" by simp_all
  show ?thesis
    using image_polling_is_bounded_and_falls_back [OF key gi1 tid1 tr1, of "[]"]
          image_polling_is_bounded_and_falls_back [OF key gi2 tid2 tr2, of "[]"]
    by (simp add: run_defs query_times_def provider_all_ok_def provider_image_never_ready_def
          image_queued_with_url_def)
qed

section \<open>Auxiliary facts about the task id\<close>







section \<open>Claims about the client\<close>

lemmas client_defs =
  handleGenerate_def try_body_def catch_handler_def updateStep_def trim_def white_space_def
  fresh_state_def initial_progress_def reply_500_def reply_processing_def reply_status_def
  js_or_def Let_def

text \<open>
  The handler of the \<^verbatim>\<open>catch\<close> marks the steps of the current state whose id is the
  id of a step that was processing in the captured array.
\<close>

lemma catch_handler_progress:
  "progress (catch_handler captured err s) =
     map (\<lambda>step. if step_id step \<in> step_id ` {c \<in> set captured. step_status c = StepProcessing}
                  then step\<lparr>step_status := StepError\<rparr> else step)
         (progress s)"
proof -
  have "progress (fold (\<lambda>step s'. if step_status step = StepProcessing
                                    then updateStep (step_id step) StepError s' else s') captured s0) =
     map (\<lambda>step. if step_id step \<in> step_id ` {c \<in> set captured. step_status c = StepProcessing}
                  then step\<lparr>step_status := StepError\<rparr> else step)
         (progress s0)" for s0
  proof (induction captured arbitrary: s0)
    case Nil
    then show ?case by simp
  next
    case (Cons c captured)
    show ?case
      by (simp add: Cons.IH updateStep_def) (auto intro!: map_cong)
  qed
  then show ?thesis by (simp add: catch_handler_def)
qed

text \<open>
  Claim C8.  The claim asks that every step that is processing when an error is thrown
  ends as \<^verbatim>\<open>error\<close>.  The code walks the captured array instead of the current
  state: on a freshly mounted component, where the captured steps are all pending, a
  500 answer of POST /api/generate is thrown while step 1 is processing, and the run
  ends with step 1 still processing; likewise a \<^verbatim>\<open>failed\<close> status during polling
  leaves step 3 processing.
\<close>

theorem catch_handler_walks_captured_progress:
  "progress_when_thrown (try_body number_text reply_500 []
       (fresh_state\<lparr>isGenerating := True, error_text := None, result := None\<rparr>))
     = Some [\<lparr>step_id = 1, label = ''Uploading Image'', step_status = StepProcessing\<rparr>,
             \<lparr>step_id = 2, label = ''Generating Music'', step_status = StepPending\<rparr>,
             \<lparr>step_id = 3, label = ''Creating Video'', step_status = StepPending\<rparr>,
             \<lparr>step_id = 4, label = ''Merging & Finalizing'', step_status = StepPending\<rparr>]
   \<and> handleGenerate number_text fresh_state reply_500 [] =
       Returned (fresh_state
         \<lparr>progress := [\<lparr>step_id = 1, label = ''Uploading Image'', step_status = StepProcessing\<rparr>,
                        \<lparr>step_id = 2, label = ''Generating Music'', step_status = StepPending\<rparr>,
                        \<lparr>step_id = 3, label = ''Creating Video'', step_status = StepPending\<rparr>,
                        \<lparr>step_id = 4, label = ''Merging & Finalizing'', step_status = StepPending\<rparr>],
          error_text := Some ''Request failed with status code 500''\<rparr>)
   \<and> map step_status (progress (final_state
         (handleGenerate number_text fresh_state reply_processing [reply_status ''Queueing'', reply_status ''failed''])))
     = [StepCompleted, StepCompleted, StepProcessing, StepPending]
   \<and> error_text (final_state
         (handleGenerate number_text fresh_state reply_processing [reply_status ''Queueing'', reply_status ''failed'']))
     = Some ''Video generation failed''"
proof -
  let ?started = "fresh_state\<lparr>isGenerating := True, error_text := None, result := None\<rparr>"
  have entered: "image fresh_state = Some 204800" "trim (theme_text fresh_state) \<noteq> []"
    by (simp_all add: fresh_state_def trim_def white_space_def)
  have thrown: "try_body number_text reply_500 [] ?started =
      Thrown (Error ''Request failed with status code 500'') (updateStep 1 StepProcessing ?started)"
    by (simp add: try_body_def reply_500_def js_or_def)
  have none_captured:
    "{c \<in> set (progress fresh_state). step_status c = StepProcessing} = {}"
    by (auto simp: fresh_state_def initial_progress_def)
  have untouched: "progress (catch_handler (progress fresh_state) err s) = progress s" for err s
    by (simp add: catch_handler_progress none_captured)
  have at_throw: "progress (updateStep 1 StepProcessing ?started) =
      [\<lparr>step_id = 1, label = ''Uploading Image'', step_status = StepProcessing\<rparr>,
       \<lparr>step_id = 2, label = ''Generating Music'', step_status = StepPending\<rparr>,
       \<lparr>step_id = 3, label = ''Creating Video'', step_status = StepPending\<rparr>,
       \<lparr>step_id = 4, label = ''Merging & Finalizing'', step_status = StepPending\<rparr>]"
    by (simp add: updateStep_def fresh_state_def initial_progress_def)
  have first: "progress_when_thrown (try_body number_text reply_500 [] ?started) =
      Some [\<lparr>step_id = 1, label = ''Uploading Image'', step_status = StepProcessing\<rparr>,
            \<lparr>step_id = 2, label = ''Generating Music'', step_status = StepPending\<rparr>,
            \<lparr>step_id = 3, label = ''Creating Video'', step_status = StepPending\<rparr>,
            \<lparr>step_id = 4, label = ''Merging & Finalizing'', step_status = StepPending\<rparr>]"
    by (simp only: thrown progress_when_thrown.simps at_throw)
  have run: "handleGenerate number_text fresh_state reply_500 [] =
      Returned ((catch_handler (progress fresh_state) (Error ''Request failed with status code 500'')
                   (updateStep 1 StepProcessing ?started))\<lparr>isGenerating := False\<rparr>)"
    by (simp add: handleGenerate_def entered thrown del: One_nat_def)
  have second: "handleGenerate number_text fresh_state reply_500 [] =
       Returned (fresh_state
         \<lparr>progress := [\<lparr>step_id = 1, label = ''Uploading Image'', step_status = StepProcessing\<rparr>,
                        \<lparr>step_id = 2, label = ''Generating Music'', step_status = StepPending\<rparr>,
                        \<lparr>step_id = 3, label = ''Creating Video'', step_status = StepPending\<rparr>,
                        \<lparr>step_id = 4, label = ''Merging & Finalizing'', step_status = StepPending\<rparr>],
          error_text := Some ''Request failed with status code 500''\<rparr>)"
    unfolding run
    by (simp add: catch_handler_def updateStep_def fresh_state_def initial_progress_def)
  have polled: "try_body number_text reply_processing [reply_status ''Queueing'', reply_status ''failed''] ?started =
      Thrown (Error ''Video generation failed'')
        (updateStep 3 StepProcessing (updateStep 2 StepCompleted (updateStep 2 StepProcessing
           (updateStep 1 StepCompleted (updateStep 1 StepProcessing ?started)))))"
    by (simp add: try_body_def reply_processing_def reply_status_def poll_video.simps)
  have run': "final_state (handleGenerate number_text fresh_state reply_processing
                 [reply_status ''Queueing'', reply_status ''failed'']) =
      (catch_handler (progress fresh_state) (Error ''Video generation failed'')
         (updateStep 3 StepProcessing (updateStep 2 StepCompleted (updateStep 2 StepProcessing
           (updateStep 1 StepCompleted (updateStep 1 StepProcessing ?started))))))\<lparr>isGenerating := False\<rparr>"
    by (simp add: handleGenerate_def entered polled del: One_nat_def)
  have third: "map step_status (progress (final_state
         (handleGenerate number_text fresh_state reply_processing [reply_status ''Queueing'', reply_status ''failed''])))
     = [StepCompleted, StepCompleted, StepProcessing, StepPending]"
    unfolding run' by (simp add: untouched) (simp add: updateStep_def fresh_state_def initial_progress_def)
  have fourth: "error_text (final_state
         (handleGenerate number_text fresh_state reply_processing [reply_status ''Queueing'', reply_status ''failed'']))
     = Some ''Video generation failed''"
    unfolding run' by (simp add: catch_handler_def updateStep_def fresh_state_def initial_progress_def)
  from first second third fourth show ?thesis by (intro conjI)
qed

end
